theory Spec2Isabelle
  imports Complex_Main "HOL-Library.Log_Nat"
begin

section \<open>Data model\<close>

text \<open>
  The three Mongoose schemas of the backend (\<^verbatim>\<open>models/User.js\<close>,
  \<^verbatim>\<open>models/Assignment.js\<close> and the \<^verbatim>\<open>Project\<close> schema that follows it in the
  same file) as records. An \<^verbatim>\<open>ObjectId\<close> is a natural number, a \<^verbatim>\<open>Date\<close> is a
  number of milliseconds, and a JavaScript \<^verbatim>\<open>Number\<close> is the rational value of a
  double; the arithmetic of the routes rounds every result to the nearest double (see
  the section on double-precision arithmetic). The string enums of the schemas are
  datatypes, so a value outside an enum cannot be written down. Fields that no route
  below reads or writes (titles, descriptions, tags, attachments, budgets, timestamps)
  are left out of the records.
\<close>

type_synonym objectId = nat
type_synonym number = rat
type_synonym date = int

datatype role = Admin | Manager | Engineer

datatype assignmentStatus = Pending | Active | InProgress | Completed | Cancelled | OnHold

datatype projectStatus = Planning | ProjActive | ProjOnHold | ProjCompleted | ProjCancelled

record timeEntry =
  te_date :: date
  hours :: number
  te_description :: string

record assignment =
  a_id :: objectId
  a_project :: objectId
  assignee :: objectId
  assignedBy :: objectId
  a_status :: assignmentStatus
  a_progress :: number
  estimatedHours :: number
  actualHours :: number
  a_deadline :: date
  completedAt :: "date option"
  timeEntries :: "timeEntry list"

record teamMember =
  tm_user :: objectId
  tm_role :: string
  hoursPerWeek :: number

record project =
  p_id :: objectId
  p_status :: projectStatus
  p_progress :: number
  manager :: objectId
  teamMembers :: "teamMember list"

record user =
  u_id :: objectId
  firstName :: string
  lastName :: string
  email :: string
  password :: string
  u_role :: role
  department :: string
  experienceLevel :: string
  skills :: "string list"
  hourlyRate :: "number option"
  availability :: number
  location :: "string option"
  phone :: "string option"
  utilization :: number
  efficiency :: number
  isActive :: bool

text \<open>The database: one collection per model, in insertion order.\<close>

record store =
  users :: "user list"
  projects :: "project list"
  assignments :: "assignment list"

text \<open>\<^verbatim>\<open>req.user\<close>, as the \<^verbatim>\<open>protect\<close> middleware leaves it: the caller's id and role.\<close>

record caller =
  c_id :: objectId
  c_role :: role

text \<open>
  What a route answers: the HTTP status code and the \<^verbatim>\<open>message\<close> of the JSON body,
  with the \<^verbatim>\<open>data\<close> of a successful answer.
\<close>

datatype 'a reply = Success nat string 'a | Failure nat string

section \<open>Store primitives\<close>

text \<open>
  \<^verbatim>\<open>Model.findById\<close> returns the first document with the id. \<^verbatim>\<open>updateFirst\<close> is
  the write of one document by id: the first document with the id is replaced by its
  image under \<open>f\<close>, every other document stays. \<^verbatim>\<open>writeDocument\<close> is the write of
  \<^verbatim>\<open>document.save()\<close>: the stored document with the id is replaced, and a document
  that is not stored yet is inserted.
\<close>

definition findAssignment :: "objectId \<Rightarrow> store \<Rightarrow> assignment option" where
  "findAssignment i s = find (\<lambda>a. a_id a = i) (assignments s)"

definition findProject :: "objectId \<Rightarrow> store \<Rightarrow> project option" where
  "findProject i s = find (\<lambda>p. p_id p = i) (projects s)"

definition findUser :: "objectId \<Rightarrow> store \<Rightarrow> user option" where
  "findUser i s = find (\<lambda>u. u_id u = i) (users s)"

fun updateFirst :: "('a \<Rightarrow> bool) \<Rightarrow> ('a \<Rightarrow> 'a) \<Rightarrow> 'a list \<Rightarrow> 'a list" where
  "updateFirst P f [] = []"
| "updateFirst P f (x # xs) = (if P x then f x # xs else x # updateFirst P f xs)"

definition writeDocument :: "('a \<Rightarrow> bool) \<Rightarrow> 'a \<Rightarrow> 'a list \<Rightarrow> 'a list" where
  "writeDocument P y xs =
     (case find P xs of None \<Rightarrow> xs @ [y] | Some x \<Rightarrow> updateFirst P (\<lambda>x. y) xs)"

section \<open>Double-precision arithmetic\<close>

text \<open>
  JavaScript numbers are IEEE 754 doubles: 53 significant bits, and every \<open>+\<close>,
  \<open>-\<close>, \<open>*\<close> and \<open>/\<close> returns the double nearest to the exact result, a tie
  going to the even significand. \<open>binade x\<close> is the exponent \<open>e\<close> with
  \<open>2 ^ e \<le> x < 2 ^ (e + 1)\<close> of a positive \<open>x\<close>, \<open>ulp x\<close> the distance
  \<open>2 ^ (e - 52)\<close> between the doubles of that binade, and \<open>toDouble x\<close> the
  nearest double. The exponent range is not modelled: there is no overflow to
  \<^verbatim>\<open>Infinity\<close> and no subnormal number, and \<^verbatim>\<open>NaN\<close> and the negative zero do not
  exist. A number of a request body is the double that \<^verbatim>\<open>JSON.parse\<close> made of it.
\<close>

definition roundHalfEven :: "rat \<Rightarrow> int" where
  "roundHalfEven x =
     (let f = \<lfloor>x\<rfloor>; d = x - of_int f
      in if d < 1 / 2 then f else if 1 / 2 < d then f + 1 else if even f then f else f + 1)"

definition binade :: "rat \<Rightarrow> int" where
  "binade x = (if 1 \<le> x then bitlen \<lfloor>x\<rfloor> - 1 else - bitlen (\<lceil>1 / x\<rceil> - 1))"

definition ulp :: "rat \<Rightarrow> rat" where
  "ulp x =
     (let e = binade \<bar>x\<bar> in if 52 \<le> e then 2 ^ nat (e - 52) else 1 / 2 ^ nat (52 - e))"

definition toDouble :: "rat \<Rightarrow> number" where
  "toDouble x = (if x = 0 then 0 else of_int (roundHalfEven (x / ulp x)) * ulp x)"

definition fadd :: "number \<Rightarrow> number \<Rightarrow> number" where
  "fadd x y = toDouble (x + y)"

definition fsub :: "number \<Rightarrow> number \<Rightarrow> number" where
  "fsub x y = toDouble (x - y)"

definition fmul :: "number \<Rightarrow> number \<Rightarrow> number" where
  "fmul x y = toDouble (x * y)"

definition fdiv :: "number \<Rightarrow> number \<Rightarrow> number" where
  "fdiv x y = toDouble (x / y)"

text \<open>
  \<^verbatim>\<open>Math.round\<close>: the nearest integer, a tie going up. It is exact: the result is
  computed from the double itself, with no intermediate rounding.
\<close>

definition Math_round :: "number \<Rightarrow> number" where
  "Math_round x = of_int \<lfloor>x + 1 / 2\<rfloor>"

section \<open>The Assignment and Project models\<close>

text \<open>
  \<^verbatim>\<open>this.timeEntries.reduce((total, entry) => total + entry.hours, 0)\<close>: a left fold
  from 0.
\<close>

definition reduceHours :: "timeEntry list \<Rightarrow> number" where
  "reduceHours es = foldl (\<lambda>total entry. fadd total (hours entry)) 0 es"

text \<open>
  \<^verbatim>\<open>AssignmentSchema.pre("save")\<close>. \<open>now\<close> is the value of \<^verbatim>\<open>new Date()\<close> and
  \<open>modifiedTimeEntries\<close> the value of \<^verbatim>\<open>this.isModified("timeEntries")\<close>. The three
  \<^verbatim>\<open>if\<close> statements run one after the other on the same document.
\<close>

definition assignmentPreSave :: "date \<Rightarrow> bool \<Rightarrow> assignment \<Rightarrow> assignment" where
  "assignmentPreSave now modifiedTimeEntries a =
     (let a1 = (if modifiedTimeEntries
                then a\<lparr>actualHours := reduceHours (timeEntries a)\<rparr> else a);
          a2 = (if a_progress a1 = 100 \<and> a_status a1 \<noteq> Completed
                then a1\<lparr>a_status := Completed, completedAt := Some now\<rparr> else a1);
          a3 = (if 0 < a_progress a2 \<and> (a_status a2 = Pending \<or> a_status a2 = Active)
                then a2\<lparr>a_status := InProgress\<rparr> else a2)
      in a3)"

text \<open>\<^verbatim>\<open>ProjectSchema.pre("save")\<close>: an \<^verbatim>\<open>if\<close> with an \<^verbatim>\<open>else if\<close>.\<close>

definition projectPreSave :: "project \<Rightarrow> project" where
  "projectPreSave p =
     (if p_progress p = 100 \<and> p_status p \<noteq> ProjCompleted then p\<lparr>p_status := ProjCompleted\<rparr>
      else if 0 < p_progress p \<and> p_status p = Planning then p\<lparr>p_status := ProjActive\<rparr>
      else p)"

text \<open>
  The mean that \<^verbatim>\<open>updateProgress\<close> computes over the documents of
  \<^verbatim>\<open>Assignment.find({ project: this._id })\<close>.
\<close>

definition assignmentsOf :: "objectId \<Rightarrow> store \<Rightarrow> assignment list" where
  "assignmentsOf pid s = filter (\<lambda>a. a_project a = pid) (assignments s)"

definition meanProgress :: "assignment list \<Rightarrow> number" where
  "meanProgress as =
     (if length as = 0 then 0
      else Math_round (fdiv (foldl (\<lambda>sum a. fadd sum (a_progress a)) 0 as) (of_nat (length as))))"

text \<open>
  \<^verbatim>\<open>ProjectSchema.methods.updateProgress\<close>, run on the project document \<open>p\<close>: the
  progress is recomputed, and \<^verbatim>\<open>this.save({ validateBeforeSave: false })\<close> runs the
  project's pre-save hook and writes the document, with no validation.
\<close>

definition saveProject :: "project \<Rightarrow> store \<Rightarrow> store" where
  "saveProject p s =
     s\<lparr>projects := updateFirst (\<lambda>q. p_id q = p_id p) (\<lambda>q. projectPreSave p) (projects s)\<rparr>"

definition updateProgress :: "project \<Rightarrow> store \<Rightarrow> store" where
  "updateProgress p s = saveProject (p\<lparr>p_progress := meanProgress (assignmentsOf (p_id p) s)\<rparr>) s"

text \<open>
  The schema's validators on the fields of the record, as \<^verbatim>\<open>document.save()\<close> runs
  them before the pre-save hook: the ranges of \<^verbatim>\<open>progress\<close>, \<^verbatim>\<open>estimatedHours\<close>,
  \<^verbatim>\<open>actualHours\<close> and of every time entry's \<^verbatim>\<open>hours\<close>, and the deadline's
  \<^verbatim>\<open>value > new Date()\<close>.
\<close>

definition validTimeEntry :: "timeEntry \<Rightarrow> bool" where
  "validTimeEntry e = (1 / 4 \<le> hours e \<and> hours e \<le> 24)"

definition validateAssignment :: "date \<Rightarrow> assignment \<Rightarrow> bool" where
  "validateAssignment now a =
     (0 \<le> a_progress a \<and> a_progress a \<le> 100 \<and> 1 / 2 \<le> estimatedHours a \<and>
      0 \<le> actualHours a \<and> now < a_deadline a \<and> list_all validTimeEntry (timeEntries a))"

text \<open>
  \<^verbatim>\<open>AssignmentSchema.post("save")\<close>: the owning project is looked up and, when it
  exists, its progress is recomputed.
\<close>

definition assignmentPostSave :: "assignment \<Rightarrow> store \<Rightarrow> store" where
  "assignmentPostSave a s =
     (case findProject (a_project a) s of
        None \<Rightarrow> s
      | Some p \<Rightarrow> updateProgress p s)"

text \<open>
  \<^verbatim>\<open>assignment.save()\<close>: validation, the pre-save hook, the write (of a document
  loaded from the store, or of a new one), the post-save hook. A validation error
  leaves the store as it was (\<open>None\<close>).
\<close>

definition saveAssignment :: "date \<Rightarrow> bool \<Rightarrow> assignment \<Rightarrow> store \<Rightarrow> (assignment \<times> store) option" where
  "saveAssignment now modifiedTimeEntries a s =
     (if validateAssignment now a then
        (let a' = assignmentPreSave now modifiedTimeEntries a;
             s1 = s\<lparr>assignments := writeDocument (\<lambda>b. a_id b = a_id a) a' (assignments s)\<rparr>
         in Some (a', assignmentPostSave a' s1))
      else None)"

section \<open>The assignment routes\<close>

text \<open>
  The body of \<^verbatim>\<open>POST /api/assignments/:id/time-entries\<close>. An absent field is
  \<open>None\<close>; \<^verbatim>\<open>!date\<close> and \<^verbatim>\<open>!hours\<close> also hold for the number 0.
\<close>

record timeEntryBody =
  b_date :: "date option"
  b_hours :: "number option"
  b_description :: "string option"

definition orElse :: "'a option \<Rightarrow> 'a \<Rightarrow> 'a" where
  "orElse x d = (case x of None \<Rightarrow> d | Some v \<Rightarrow> v)"

text \<open>
  The entry that the route pushes, when \<^verbatim>\<open>!date || !hours\<close> is false: both fields
  are present and neither is 0.
\<close>

definition newTimeEntry :: "timeEntryBody \<Rightarrow> timeEntry option" where
  "newTimeEntry body =
     (case b_date body of
        None \<Rightarrow> None
      | Some d \<Rightarrow>
          (case b_hours body of
             None \<Rightarrow> None
           | Some h \<Rightarrow>
               if d = 0 \<or> h = 0 then None
               else Some \<lparr>te_date = d, hours = h, te_description = orElse (b_description body) []\<rparr>))"

definition postTimeEntry ::
  "date \<Rightarrow> caller \<Rightarrow> objectId \<Rightarrow> timeEntryBody \<Rightarrow> store \<Rightarrow> timeEntry list reply \<times> store" where
  "postTimeEntry now c i body s =
     (case newTimeEntry body of
        None \<Rightarrow> (Failure 400 ''Date and hours are required'', s)
      | Some entry \<Rightarrow>
          (case findAssignment i s of
             None \<Rightarrow> (Failure 404 ''Assignment not found'', s)
           | Some a \<Rightarrow>
               if assignee a = c_id c then
                 (case saveAssignment now True (a\<lparr>timeEntries := timeEntries a @ [entry]\<rparr>) s of
                    None \<Rightarrow> (Failure 500 ''Server error'', s)
                  | Some (a', s') \<Rightarrow>
                      (Success 201 ''Time entry added successfully'' (timeEntries a'), s'))
               else (Failure 403 ''Only the assignee can log time for this assignment'', s)))"

text \<open>
  \<^verbatim>\<open>populate("project", selected)\<close> replaces the project reference of an assignment
  by the project document restricted to the selected fields, or by \<^verbatim>\<open>null\<close> when no
  project has the id. Of the restricted document only the team members matter below:
  they are loaded when the selection names them.
\<close>

record populatedProject =
  pp_id :: objectId
  pp_teamMembers :: "teamMember list option"

definition populateProject :: "string list \<Rightarrow> objectId \<Rightarrow> store \<Rightarrow> populatedProject option" where
  "populateProject selected pid s =
     map_option
       (\<lambda>p. \<lparr>pp_id = p_id p,
              pp_teamMembers =
                (if ''teamMembers'' \<in> set selected then Some (teamMembers p) else None)\<rparr>)
       (findProject pid s)"

text \<open>
  \<^verbatim>\<open>ProjectSchema.virtual("teamSize")\<close> returns \<^verbatim>\<open>this.teamMembers.length\<close>, which
  throws a \<^verbatim>\<open>TypeError\<close> (\<open>None\<close>) on a document whose team members are not loaded.
  The schema sets \<^verbatim>\<open>toJSON: { virtuals: true }\<close>, so \<^verbatim>\<open>res.json\<close> evaluates the
  virtual of every populated project it serializes: an assignment is serialized when
  its project is \<^verbatim>\<open>null\<close> or the virtual returns. The other virtuals of the three
  schemas do not throw.
\<close>

definition teamSize :: "populatedProject \<Rightarrow> nat option" where
  "teamSize q = map_option length (pp_teamMembers q)"

definition serializable :: "populatedProject option \<Rightarrow> bool" where
  "serializable populated = (case populated of None \<Rightarrow> True | Some q \<Rightarrow> teamSize q \<noteq> None)"

text \<open>
  The body of \<^verbatim>\<open>PUT /api/assignments/:id\<close>: the schema's fields of the record, each
  present or absent. The route hands the body (for an engineer: its \<^verbatim>\<open>progress\<close>,
  \<^verbatim>\<open>status\<close> and \<^verbatim>\<open>actualHours\<close> only) to \<^verbatim>\<open>Assignment.findByIdAndUpdate\<close>
  with \<^verbatim>\<open>runValidators: true\<close>.
\<close>

record assignmentUpdate =
  up_progress :: "number option"
  up_status :: "assignmentStatus option"
  up_actualHours :: "number option"
  up_estimatedHours :: "number option"
  up_timeEntries :: "timeEntry list option"
  up_project :: "objectId option"
  up_assignee :: "objectId option"
  up_deadline :: "date option"
  up_completedAt :: "date option"

definition engineerFields :: "assignmentUpdate \<Rightarrow> assignmentUpdate" where
  "engineerFields body =
     \<lparr>up_progress = up_progress body, up_status = up_status body,
      up_actualHours = up_actualHours body, up_estimatedHours = None, up_timeEntries = None,
      up_project = None, up_assignee = None, up_deadline = None, up_completedAt = None\<rparr>"

text \<open>
  \<^verbatim>\<open>findByIdAndUpdate\<close> is Mongoose's query-level update: it sets the given fields
  on the stored document and runs the validators of those fields, and, unlike
  \<^verbatim>\<open>document.save()\<close>, it runs neither the schema's \<^verbatim>\<open>pre("save")\<close> nor its
  \<^verbatim>\<open>post("save")\<close> hook (which is why the route recomputes the project's progress
  itself). The route populates the updated assignment's project with
  \<^verbatim>\<open>"name description"\<close>, writes the project's progress when the project exists, and
  then sends the assignment: when \<^verbatim>\<open>res.json\<close> throws, the \<^verbatim>\<open>catch\<close> answers 500
  and both writes stay.
\<close>

definition applyUpdate :: "assignmentUpdate \<Rightarrow> assignment \<Rightarrow> assignment" where
  "applyUpdate u a =
     a\<lparr>a_progress := orElse (up_progress u) (a_progress a),
       a_status := orElse (up_status u) (a_status a),
       actualHours := orElse (up_actualHours u) (actualHours a),
       estimatedHours := orElse (up_estimatedHours u) (estimatedHours a),
       timeEntries := orElse (up_timeEntries u) (timeEntries a),
       a_project := orElse (up_project u) (a_project a),
       assignee := orElse (up_assignee u) (assignee a),
       a_deadline := orElse (up_deadline u) (a_deadline a),
       completedAt := (case up_completedAt u of None \<Rightarrow> completedAt a | Some d \<Rightarrow> Some d)\<rparr>"

definition validateUpdate :: "date \<Rightarrow> assignmentUpdate \<Rightarrow> bool" where
  "validateUpdate now u =
     ((case up_progress u of None \<Rightarrow> True | Some x \<Rightarrow> 0 \<le> x \<and> x \<le> 100) \<and>
      (case up_actualHours u of None \<Rightarrow> True | Some x \<Rightarrow> 0 \<le> x) \<and>
      (case up_estimatedHours u of None \<Rightarrow> True | Some x \<Rightarrow> 1 / 2 \<le> x) \<and>
      (case up_deadline u of None \<Rightarrow> True | Some d \<Rightarrow> now < d) \<and>
      (case up_timeEntries u of None \<Rightarrow> True | Some es \<Rightarrow> list_all validTimeEntry es))"

text \<open>
  The route's own recomputation of the project's progress:
  \<^verbatim>\<open>sum + (a.progress || 0)\<close>, then \<^verbatim>\<open>Math.round(totalProgress / assignments.length)\<close>
  or 0 for no assignment.
\<close>

definition orZero :: "number \<Rightarrow> number" where
  "orZero x = (if x = 0 then 0 else x)"

definition averageProgress :: "assignment list \<Rightarrow> number" where
  "averageProgress as =
     (let totalProgress = foldl (\<lambda>sum a. fadd sum (orZero (a_progress a))) 0 as
      in if 0 < length as then Math_round (fdiv totalProgress (of_nat (length as))) else 0)"

definition putAssignment ::
  "date \<Rightarrow> caller \<Rightarrow> objectId \<Rightarrow> assignmentUpdate \<Rightarrow> store \<Rightarrow> assignment reply \<times> store" where
  "putAssignment now c i body s =
     (case findAssignment i s of
        None \<Rightarrow> (Failure 404 ''Assignment not found'', s)
      | Some a \<Rightarrow>
          if c_role c = Admin \<or> assignedBy a = c_id c \<or> assignee a = c_id c then
            (let updateFields = (if c_role c = Engineer then engineerFields body else body) in
             if validateUpdate now updateFields then
               (let a' = applyUpdate updateFields a;
                    s1 = s\<lparr>assignments :=
                            updateFirst (\<lambda>b. a_id b = i) (applyUpdate updateFields) (assignments s)\<rparr>;
                    projectId = a_project a';
                    s2 = (case findProject projectId s1 of
                            None \<Rightarrow> s1
                          | Some p \<Rightarrow>
                              s1\<lparr>projects :=
                                   updateFirst (\<lambda>q. p_id q = projectId)
                                     (\<lambda>q. q\<lparr>p_progress := averageProgress (assignmentsOf projectId s1)\<rparr>)
                                     (projects s1)\<rparr>)
                in if serializable (populateProject [''name'', ''description''] projectId s1)
                   then (Success 200 ''Assignment updated successfully'' a', s2)
                   else (Failure 500 ''Server error'', s2))
             else (Failure 400 ''Validation error'', s))
          else (Failure 403 ''Not authorized to update this assignment'', s))"

text \<open>
  \<^verbatim>\<open>GET /api/assignments/:id\<close>. The assignment's project and assignee are populated.
  For an engineer the guard reads \<^verbatim>\<open>assignment.assignee._id\<close>, which throws when no
  user has the assignee's id; a permitted read sends the assignment with its populated
  project. Every exception is answered 500 by the \<^verbatim>\<open>catch\<close>.
\<close>

definition sendAssignment :: "assignment \<Rightarrow> store \<Rightarrow> assignment reply" where
  "sendAssignment a s =
     (if serializable
           (populateProject [''name'', ''description'', ''status'', ''priority'', ''manager'']
              (a_project a) s)
      then Success 200 [] a
      else Failure 500 ''Server error'')"

definition getAssignment :: "caller \<Rightarrow> objectId \<Rightarrow> store \<Rightarrow> assignment reply" where
  "getAssignment c i s =
     (case findAssignment i s of
        None \<Rightarrow> Failure 404 ''Assignment not found''
      | Some a \<Rightarrow>
          if c_role c = Engineer then
            (case findUser (assignee a) s of
               None \<Rightarrow> Failure 500 ''Server error''
             | Some u \<Rightarrow>
                 if u_id u \<noteq> c_id c
                 then Failure 403 ''Not authorized to access this assignment''
                 else sendAssignment a s)
          else sendAssignment a s)"

section \<open>The project routes\<close>

text \<open>
  \<^verbatim>\<open>GET /api/projects/:id\<close>. The manager and the users of the team members are
  populated. \<^verbatim>\<open>teamMembers.some(member => member.user._id ...)\<close> goes through the
  members in order until one is the caller, and throws (\<open>None\<close>) at a member whose
  user does not exist; for a manager the guard reads \<^verbatim>\<open>project.manager._id\<close>, which
  throws when no user has the manager's id. The project itself is loaded whole, so it
  is serialized.
\<close>

fun isTeamMember :: "caller \<Rightarrow> teamMember list \<Rightarrow> store \<Rightarrow> bool option" where
  "isTeamMember c [] s = Some False"
| "isTeamMember c (member # members) s =
     (case findUser (tm_user member) s of
        None \<Rightarrow> None
      | Some u \<Rightarrow> if u_id u = c_id c then Some True else isTeamMember c members s)"

definition getProject :: "caller \<Rightarrow> objectId \<Rightarrow> store \<Rightarrow> project reply" where
  "getProject c i s =
     (case findProject i s of
        None \<Rightarrow> Failure 404 ''Project not found''
      | Some p \<Rightarrow>
          if c_role c = Manager then
            (case findUser (manager p) s of
               None \<Rightarrow> Failure 500 ''Server error''
             | Some m \<Rightarrow>
                 if u_id m \<noteq> c_id c
                 then Failure 403 ''Not authorized to access this project''
                 else Success 200 [] p)
          else if c_role c = Engineer then
            (case isTeamMember c (teamMembers p) s of
               None \<Rightarrow> Failure 500 ''Server error''
             | Some member \<Rightarrow>
                 if member then Success 200 [] p
                 else Failure 403 ''Not authorized to access this project'')
          else Success 200 [] p)"

section \<open>The User model\<close>

text \<open>
  The setters and validators of \<^verbatim>\<open>UserSchema\<close>. \<^verbatim>\<open>trim: true\<close> strips white space
  at both ends (the ASCII white space characters here), \<^verbatim>\<open>lowercase: true\<close> maps
  \<^verbatim>\<open>A-Z\<close> to \<^verbatim>\<open>a-z\<close>.
\<close>

definition isSpace :: "char \<Rightarrow> bool" where
  "isSpace ch = (let n = (of_char ch :: nat) in n = 32 \<or> (9 \<le> n \<and> n \<le> 13))"

definition trim :: "string \<Rightarrow> string" where
  "trim s = rev (dropWhile isSpace (rev (dropWhile isSpace s)))"

definition toLowerCase :: "string \<Rightarrow> string" where
  "toLowerCase s =
     map (\<lambda>ch. let n = (of_char ch :: nat) in if 65 \<le> n \<and> n \<le> 90 then char_of (n + 32) else ch) s"

definition isDigit :: "char \<Rightarrow> bool" where
  "isDigit ch = (let n = (of_char ch :: nat) in 48 \<le> n \<and> n \<le> 57)"

definition isWordChar :: "char \<Rightarrow> bool" where
  "isWordChar ch =
     (let n = (of_char ch :: nat)
      in (48 \<le> n \<and> n \<le> 57) \<or> (65 \<le> n \<and> n \<le> 90) \<or> (97 \<le> n \<and> n \<le> 122) \<or> n = 95)"

text \<open>
  The phone pattern \<^verbatim>\<open>^[+]?[1-9][\d]{0,15}$\<close>: an optional plus sign, a digit from 1
  to 9, at most fifteen more digits.
\<close>

definition phoneMatch :: "string \<Rightarrow> bool" where
  "phoneMatch s =
     (case (case s of [] \<Rightarrow> [] | ch # r \<Rightarrow> if ch = CHR ''+'' then r else s) of
        [] \<Rightarrow> False
      | d # ds \<Rightarrow> isDigit d \<and> d \<noteq> CHR ''0'' \<and> length ds \<le> 15 \<and> list_all isDigit ds)"

text \<open>
  The email pattern \<^verbatim>\<open>^\w+([.-]?\w+)*@\w+([.-]?\w+)*(\.\w{2,3})+$\<close>.
  \<^verbatim>\<open>\w+([.-]?\w+)*\<close> matches the words over \<^verbatim>\<open>\w\<close>, dot and hyphen that begin and
  end with a \<^verbatim>\<open>\w\<close> character and have no two separators in a row (\<open>dottedWord\<close>).
  Such a word followed by \<^verbatim>\<open>.\<close> and two or three \<^verbatim>\<open>\w\<close> characters is again such a
  word, so the final group \<^verbatim>\<open>(\.\w{2,3})+\<close> asks only that what follows the last dot
  is two or three \<^verbatim>\<open>\w\<close> characters and what precedes it is such a word.
\<close>

fun noDoubleSeparator :: "string \<Rightarrow> bool" where
  "noDoubleSeparator (a # b # r) = ((isWordChar a \<or> isWordChar b) \<and> noDoubleSeparator (b # r))"
| "noDoubleSeparator r = True"

definition dottedWord :: "string \<Rightarrow> bool" where
  "dottedWord w =
     (case w of
        [] \<Rightarrow> False
      | a # r \<Rightarrow>
          isWordChar a \<and> isWordChar (last w) \<and>
          list_all (\<lambda>ch. isWordChar ch \<or> ch = CHR ''.'' \<or> ch = CHR ''-'') w \<and>
          noDoubleSeparator w)"

definition emailMatch :: "string \<Rightarrow> bool" where
  "emailMatch s =
     (let local = takeWhile (\<lambda>ch. ch \<noteq> CHR ''@'') s;
          domain = drop (length local + 1) s;
          tld = rev (takeWhile (\<lambda>ch. ch \<noteq> CHR ''.'') (rev domain));
          host = take (length domain - length tld - 1) domain
      in length local < length s \<and> dottedWord local \<and>
         length tld < length domain \<and> dottedWord host \<and>
         2 \<le> length tld \<and> length tld \<le> 3 \<and> list_all isWordChar tld)"

text \<open>
  Mongoose's \<^verbatim>\<open>match\<close> validator passes the empty string and tests every other
  value against the pattern.
\<close>

definition validPhone :: "string \<Rightarrow> bool" where
  "validPhone p = (p = [] \<or> phoneMatch p)"

definition departments :: "string list" where
  "departments =
     [''Frontend'', ''Backend'', ''Full Stack'', ''DevOps'', ''AI/ML'', ''Mobile'', ''QA'', ''Design'']"

definition experienceLevels :: "string list" where
  "experienceLevels = [''junior'', ''mid'', ''senior'', ''lead'', ''principal'']"

definition optionAll :: "('a \<Rightarrow> bool) \<Rightarrow> 'a option \<Rightarrow> bool" where
  "optionAll P x = (case x of None \<Rightarrow> True | Some v \<Rightarrow> P v)"

definition validName :: "string \<Rightarrow> bool" where
  "validName n = (0 < length n \<and> length n \<le> 50)"

definition validPercent :: "number \<Rightarrow> bool" where
  "validPercent x = (0 \<le> x \<and> x \<le> 100)"

definition validAvailability :: "number \<Rightarrow> bool" where
  "validAvailability x = (1 \<le> x \<and> x \<le> 60)"

text \<open>
  The validators that \<^verbatim>\<open>user.save()\<close> runs on the document. The password is not
  among them: the schema declares it \<^verbatim>\<open>select: false\<close>, and no route below loads it.
\<close>

definition validateUser :: "user \<Rightarrow> bool" where
  "validateUser u =
     (validName (firstName u) \<and> validName (lastName u) \<and> emailMatch (email u) \<and>
      department u \<in> set departments \<and> experienceLevel u \<in> set experienceLevels \<and>
      optionAll (\<lambda>r. 0 \<le> r) (hourlyRate u) \<and> validAvailability (availability u) \<and>
      optionAll (\<lambda>l. length l \<le> 100) (location u) \<and> optionAll validPhone (phone u) \<and>
      validPercent (utilization u) \<and> validPercent (efficiency u))"

section \<open>The user routes\<close>

text \<open>
  A request body with the fields of the User schema, each present or absent. It is the
  body of \<^verbatim>\<open>PUT /api/users/:id\<close> and of \<^verbatim>\<open>PUT /api/auth/profile\<close>.
\<close>

record userUpdate =
  uu_firstName :: "string option"
  uu_lastName :: "string option"
  uu_email :: "string option"
  uu_password :: "string option"
  uu_role :: "role option"
  uu_department :: "string option"
  uu_experienceLevel :: "string option"
  uu_skills :: "string list option"
  uu_hourlyRate :: "number option"
  uu_availability :: "number option"
  uu_location :: "string option"
  uu_phone :: "string option"
  uu_utilization :: "number option"
  uu_efficiency :: "number option"
  uu_isActive :: "bool option"

definition noUpdate :: userUpdate where
  "noUpdate =
     \<lparr>uu_firstName = None, uu_lastName = None, uu_email = None, uu_password = None,
      uu_role = None, uu_department = None, uu_experienceLevel = None, uu_skills = None,
      uu_hourlyRate = None, uu_availability = None, uu_location = None, uu_phone = None,
      uu_utilization = None, uu_efficiency = None, uu_isActive = None\<rparr>"

text \<open>
  \<^verbatim>\<open>allowedFields.forEach(...)\<close> of \<^verbatim>\<open>PUT /api/users/:id\<close>: the six fields are
  copied when they are not \<^verbatim>\<open>undefined\<close>, nothing else is.
\<close>

definition allowedFields :: "userUpdate \<Rightarrow> userUpdate" where
  "allowedFields body =
     noUpdate\<lparr>uu_firstName := uu_firstName body, uu_lastName := uu_lastName body,
       uu_phone := uu_phone body, uu_location := uu_location body,
       uu_skills := uu_skills body, uu_availability := uu_availability body\<rparr>"

text \<open>The schema's setters on the values of an update, and the update's validators.\<close>

definition castUserUpdate :: "userUpdate \<Rightarrow> userUpdate" where
  "castUserUpdate u =
     u\<lparr>uu_firstName := map_option trim (uu_firstName u),
       uu_lastName := map_option trim (uu_lastName u),
       uu_email := map_option (\<lambda>e. trim (toLowerCase e)) (uu_email u),
       uu_skills := map_option (map trim) (uu_skills u),
       uu_location := map_option trim (uu_location u),
       uu_phone := map_option trim (uu_phone u)\<rparr>"

definition validateUserUpdate :: "userUpdate \<Rightarrow> bool" where
  "validateUserUpdate u =
     (optionAll validName (uu_firstName u) \<and> optionAll validName (uu_lastName u) \<and>
      optionAll emailMatch (uu_email u) \<and> optionAll (\<lambda>p. 6 \<le> length p) (uu_password u) \<and>
      optionAll (\<lambda>d. d \<in> set departments) (uu_department u) \<and>
      optionAll (\<lambda>l. l \<in> set experienceLevels) (uu_experienceLevel u) \<and>
      optionAll (\<lambda>r. 0 \<le> r) (uu_hourlyRate u) \<and> optionAll validAvailability (uu_availability u) \<and>
      optionAll (\<lambda>l. length l \<le> 100) (uu_location u) \<and> optionAll validPhone (uu_phone u) \<and>
      optionAll validPercent (uu_utilization u) \<and> optionAll validPercent (uu_efficiency u))"

definition applyUserUpdate :: "userUpdate \<Rightarrow> user \<Rightarrow> user" where
  "applyUserUpdate u usr =
     usr\<lparr>firstName := orElse (uu_firstName u) (firstName usr),
         lastName := orElse (uu_lastName u) (lastName usr),
         email := orElse (uu_email u) (email usr),
         password := orElse (uu_password u) (password usr),
         u_role := orElse (uu_role u) (u_role usr),
         department := orElse (uu_department u) (department usr),
         experienceLevel := orElse (uu_experienceLevel u) (experienceLevel usr),
         skills := orElse (uu_skills u) (skills usr),
         hourlyRate := (case uu_hourlyRate u of None \<Rightarrow> hourlyRate usr | Some r \<Rightarrow> Some r),
         availability := orElse (uu_availability u) (availability usr),
         location := (case uu_location u of None \<Rightarrow> location usr | Some l \<Rightarrow> Some l),
         phone := (case uu_phone u of None \<Rightarrow> phone usr | Some p \<Rightarrow> Some p),
         utilization := orElse (uu_utilization u) (utilization usr),
         efficiency := orElse (uu_efficiency u) (efficiency usr),
         isActive := orElse (uu_isActive u) (isActive usr)\<rparr>"

text \<open>
  \<^verbatim>\<open>PUT /api/users/:id\<close>. An engineer updating the own record goes through
  \<^verbatim>\<open>allowedFields\<close>; every other permitted caller sends the body without its
  \<^verbatim>\<open>password\<close>.
\<close>

definition putUser :: "caller \<Rightarrow> objectId \<Rightarrow> userUpdate \<Rightarrow> store \<Rightarrow> user reply \<times> store" where
  "putUser c i body s =
     (case findUser i s of
        None \<Rightarrow> (Failure 404 ''User not found'', s)
      | Some usr \<Rightarrow>
          if c_role c = Admin \<or> c_id c = i then
            (let updateFields =
                   castUserUpdate
                     (if c_role c = Engineer \<and> c_id c = i then allowedFields body
                      else body\<lparr>uu_password := None\<rparr>)
             in if validateUserUpdate updateFields then
                  (Success 200 ''User updated successfully'' (applyUserUpdate updateFields usr),
                   s\<lparr>users := updateFirst (\<lambda>v. u_id v = i) (applyUserUpdate updateFields) (users s)\<rparr>)
                else (Failure 400 ''Validation error'', s))
          else (Failure 403 ''Not authorized to update this user'', s))"

text \<open>
  \<^verbatim>\<open>PUT /api/auth/profile\<close>: eight fields are read from the body, and each is
  assigned when its value is truthy (a non-empty string, a number other than 0, any
  array). Then \<^verbatim>\<open>user.save()\<close> validates and writes the document.
\<close>

definition truthyString :: "string option \<Rightarrow> string option" where
  "truthyString x = (case x of None \<Rightarrow> None | Some v \<Rightarrow> if v = [] then None else Some v)"

definition truthyNumber :: "number option \<Rightarrow> number option" where
  "truthyNumber x = (case x of None \<Rightarrow> None | Some v \<Rightarrow> if v = 0 then None else Some v)"

definition profileFields :: "userUpdate \<Rightarrow> userUpdate" where
  "profileFields body =
     noUpdate\<lparr>uu_firstName := truthyString (uu_firstName body),
       uu_lastName := truthyString (uu_lastName body),
       uu_phone := truthyString (uu_phone body),
       uu_location := truthyString (uu_location body),
       uu_skills := uu_skills body,
       uu_availability := truthyNumber (uu_availability body),
       uu_department := truthyString (uu_department body),
       uu_experienceLevel := truthyString (uu_experienceLevel body)\<rparr>"

definition putProfile :: "caller \<Rightarrow> userUpdate \<Rightarrow> store \<Rightarrow> user reply \<times> store" where
  "putProfile c body s =
     (case findUser (c_id c) s of
        None \<Rightarrow> (Failure 404 ''User not found'', s)
      | Some usr \<Rightarrow>
          (let usr' = applyUserUpdate (castUserUpdate (profileFields body)) usr
           in if validateUser usr' then
                (Success 200 ''Profile updated successfully'' usr',
                 s\<lparr>users := updateFirst (\<lambda>v. u_id v = c_id c) (\<lambda>v. usr') (users s)\<rparr>)
              else (Failure 400 ''Validation error'', s)))"

text \<open>
  Modelled from the spec: the role checks \<^verbatim>\<open>isAdmin\<close> and \<^verbatim>\<open>isAdminOrManager\<close> of
  \<^verbatim>\<open>middleware/auth\<close>, which is not among the sources. The spec's three-tier roles
  and the routes' \<^verbatim>\<open>@access\<close> comments say who passes; a caller who does not pass is
  answered 403 before the route's handler runs (the message is not known and left
  empty).
\<close>

definition isAdmin :: "caller \<Rightarrow> bool" where
  "isAdmin c = (c_role c = Admin)"

definition isAdminOrManager :: "caller \<Rightarrow> bool" where
  "isAdminOrManager c = (c_role c = Admin \<or> c_role c = Manager)"

text \<open>
  \<^verbatim>\<open>DELETE /api/users/:id\<close>. \<^verbatim>\<open>User.countDocuments({ role: "admin", isActive: true })\<close>
  counts over the whole collection; \<^verbatim>\<open>Assignment.updateMany\<close> sets the status of
  every matching assignment.
\<close>

definition adminCount :: "store \<Rightarrow> nat" where
  "adminCount s = length (filter (\<lambda>u. u_role u = Admin \<and> isActive u) (users s))"

definition cancelAssignmentsOf :: "objectId \<Rightarrow> assignment list \<Rightarrow> assignment list" where
  "cancelAssignmentsOf i as =
     map (\<lambda>a. if assignee a = i \<and> (a_status a = Active \<or> a_status a = InProgress)
               then a\<lparr>a_status := Cancelled\<rparr> else a) as"

definition deleteUser :: "caller \<Rightarrow> objectId \<Rightarrow> store \<Rightarrow> unit reply \<times> store" where
  "deleteUser c i s =
     (if isAdmin c then
        (case findUser i s of
           None \<Rightarrow> (Failure 404 ''User not found'', s)
         | Some usr \<Rightarrow>
             if u_role usr = Admin \<and> adminCount s \<le> 1
             then (Failure 400 ''Cannot delete the last admin user'', s)
             else if validateUser (usr\<lparr>isActive := False\<rparr>) then
               (Success 200 ''User deactivated successfully'' (),
                s\<lparr>users := updateFirst (\<lambda>v. u_id v = i) (\<lambda>v. usr\<lparr>isActive := False\<rparr>) (users s),
                  assignments := cancelAssignmentsOf i (assignments s)\<rparr>)
             else (Failure 500 ''Server error'', s))
      else (Failure 403 [], s))"

section \<open>The engineer routes\<close>

text \<open>
  \<^verbatim>\<open>User.findOne({ _id: req.params.id, role: "engineer", isActive: true })\<close>.
\<close>

definition findEngineer :: "objectId \<Rightarrow> store \<Rightarrow> user option" where
  "findEngineer i s = find (\<lambda>u. u_id u = i \<and> u_role u = Engineer \<and> isActive u) (users s)"

text \<open>
  \<^verbatim>\<open>PUT /api/engineers/:id/metrics\<close>. The body's \<^verbatim>\<open>utilization\<close> and
  \<^verbatim>\<open>efficiency\<close> are numbers or absent; the answer's data are the two stored
  metrics.
\<close>

record metricsBody =
  m_utilization :: "number option"
  m_efficiency :: "number option"

definition clampPercent :: "number \<Rightarrow> number" where
  "clampPercent x = max 0 (min 100 x)"

definition putMetrics ::
  "caller \<Rightarrow> objectId \<Rightarrow> metricsBody \<Rightarrow> store \<Rightarrow> (number \<times> number) reply \<times> store" where
  "putMetrics c i body s =
     (if isAdminOrManager c then
        (case findEngineer i s of
           None \<Rightarrow> (Failure 404 ''Engineer not found'', s)
         | Some engineer \<Rightarrow>
             (let e1 = (case m_utilization body of
                          None \<Rightarrow> engineer
                        | Some x \<Rightarrow> engineer\<lparr>utilization := clampPercent x\<rparr>);
                  e2 = (case m_efficiency body of
                          None \<Rightarrow> e1
                        | Some x \<Rightarrow> e1\<lparr>efficiency := clampPercent x\<rparr>)
              in if validateUser e2 then
                   (Success 200 ''Engineer metrics updated successfully''
                      (utilization e2, efficiency e2),
                    s\<lparr>users := updateFirst (\<lambda>v. u_id v = u_id engineer) (\<lambda>v. e2) (users s)\<rparr>)
                 else (Failure 500 ''Server error'', s)))
      else (Failure 403 [], s))"

text \<open>
  \<^verbatim>\<open>GET /api/engineers/:id/workload\<close>: the \<^verbatim>\<open>currentWorkload\<close> object of the
  answer and the recommendations. \<open>now\<close> is \<^verbatim>\<open>new Date()\<close>. The division is
  JavaScript's; the schema keeps \<^verbatim>\<open>availability\<close> at 1 or more.

  The active assignments are found with their project populated with
  \<^verbatim>\<open>"name priority deadline"\<close>. Building the answer reads \<^verbatim>\<open>a.project.name\<close> of
  every active assignment, which throws when the project does not exist; the answer
  holds the assignment documents \<^verbatim>\<open>upcomingDeadlines\<close> (the first five by
  deadline) and \<^verbatim>\<open>overdueAssignments\<close>, which \<^verbatim>\<open>res.json\<close> serializes with their
  populated projects. Every exception is answered 500 by the \<^verbatim>\<open>catch\<close>.
\<close>

record currentWorkload =
  activeAssignments :: nat
  totalEstimatedHours :: number
  availableHours :: number
  utilizationPercentage :: number
  isOverloaded :: bool

datatype recommendation = Warning | Info | Urgent nat

definition activeAssignmentsOf :: "objectId \<Rightarrow> store \<Rightarrow> assignment list" where
  "activeAssignmentsOf i s =
     filter (\<lambda>a. assignee a = i \<and> (a_status a = Active \<or> a_status a = InProgress)) (assignments s)"

definition workloadOf :: "user \<Rightarrow> assignment list \<Rightarrow> currentWorkload" where
  "workloadOf engineer as =
     (let total = foldl (\<lambda>sum a. fadd sum (orZero (estimatedHours a))) 0 as;
          percentage = fmul (fdiv total (availability engineer)) 100
      in \<lparr>activeAssignments = length as,
          totalEstimatedHours = total,
          availableHours = max 0 (fsub (availability engineer) total),
          utilizationPercentage = Math_round percentage,
          isOverloaded = (100 < percentage)\<rparr>)"

definition recommendations :: "date \<Rightarrow> user \<Rightarrow> assignment list \<Rightarrow> recommendation list" where
  "recommendations now engineer as =
     (let total = foldl (\<lambda>sum a. fadd sum (orZero (estimatedHours a))) 0 as;
          percentage = fmul (fdiv total (availability engineer)) 100;
          overdue = length (filter (\<lambda>a. a_deadline a < now) as)
      in (if 100 < percentage then [Warning] else if percentage < 50 then [Info] else []) @
         (if 0 < overdue then [Urgent overdue] else []))"

definition getWorkload ::
  "date \<Rightarrow> caller \<Rightarrow> objectId \<Rightarrow> store \<Rightarrow> (currentWorkload \<times> recommendation list) reply" where
  "getWorkload now c i s =
     (case findEngineer i s of
        None \<Rightarrow> Failure 404 ''Engineer not found''
      | Some engineer \<Rightarrow>
          if c_role c = Engineer \<and> c_id c \<noteq> i
          then Failure 403 ''Not authorized to view this workload analysis''
          else
            (let active = activeAssignmentsOf i s;
                 populated = (\<lambda>a. populateProject [''name'', ''priority'', ''deadline''] (a_project a) s);
                 upcomingDeadlines = take 5 (sort_key a_deadline active);
                 overdueAssignments = filter (\<lambda>a. a_deadline a < now) active
             in if list_ex (\<lambda>a. populated a = None) active
                then Failure 500 ''Server error''
                else if list_all (\<lambda>a. serializable (populated a))
                          (upcomingDeadlines @ overdueAssignments)
                then Success 200 []
                       (workloadOf engineer active, recommendations now engineer active)
                else Failure 500 ''Server error''))"

section \<open>A small database\<close>

text \<open>
  One admin, one engineer and one manager. The first project is as
  \<^verbatim>\<open>POST /api/projects\<close> leaves it (status \<^verbatim>\<open>planning\<close>, progress 0) and has one
  assignment as \<^verbatim>\<open>POST /api/assignments\<close> leaves it (status \<^verbatim>\<open>active\<close>, progress
  0, no time entry). The second project is under way: one assignment in progress with
  two time entries, one completed. All three assignments are the engineer's, given by
  the manager. The theorems below are evaluated on this store.
\<close>

definition theAdmin :: user where
  "theAdmin =
     \<lparr>u_id = 1, firstName = ''Grace'', lastName = ''Hopper'', email = ''grace@example.com'',
      password = ''$2a$12$hash'', u_role = Admin, department = ''Backend'',
      experienceLevel = ''lead'', skills = [], hourlyRate = None, availability = 40,
      location = None, phone = None, utilization = 0, efficiency = 0, isActive = True\<rparr>"

definition theEngineer :: user where
  "theEngineer =
     \<lparr>u_id = 2, firstName = ''Ada'', lastName = ''Lovelace'', email = ''ada@example.com'',
      password = ''$2a$12$hash'', u_role = Engineer, department = ''Backend'',
      experienceLevel = ''senior'', skills = [''js''], hourlyRate = None, availability = 40,
      location = None, phone = None, utilization = 30, efficiency = 80, isActive = True\<rparr>"

definition theManager :: user where
  "theManager =
     \<lparr>u_id = 3, firstName = ''Alan'', lastName = ''Turing'', email = ''alan@example.com'',
      password = ''$2a$12$hash'', u_role = Manager, department = ''AI/ML'',
      experienceLevel = ''principal'', skills = [], hourlyRate = None, availability = 40,
      location = None, phone = None, utilization = 0, efficiency = 0, isActive = True\<rparr>"

definition firstProject :: project where
  "firstProject =
     \<lparr>p_id = 1, p_status = Planning, p_progress = 0, manager = 3,
      teamMembers = [\<lparr>tm_user = 2, tm_role = ''developer'', hoursPerWeek = 40\<rparr>]\<rparr>"

definition secondProject :: project where
  "secondProject =
     \<lparr>p_id = 2, p_status = ProjActive, p_progress = 63, manager = 3,
      teamMembers = [\<lparr>tm_user = 2, tm_role = ''developer'', hoursPerWeek = 40\<rparr>]\<rparr>"

definition firstAssignment :: assignment where
  "firstAssignment =
     \<lparr>a_id = 1, a_project = 1, assignee = 2, assignedBy = 3, a_status = Active,
      a_progress = 0, estimatedHours = 25, actualHours = 0, a_deadline = 1000,
      completedAt = None, timeEntries = []\<rparr>"

definition secondAssignment :: assignment where
  "secondAssignment =
     \<lparr>a_id = 2, a_project = 2, assignee = 2, assignedBy = 3, a_status = InProgress,
      a_progress = 25, estimatedHours = 20, actualHours = 6, a_deadline = 2000,
      completedAt = None,
      timeEntries = [\<lparr>te_date = 10, hours = 5 / 2, te_description = ''setup''\<rparr>,
                     \<lparr>te_date = 20, hours = 7 / 2, te_description = ''review''\<rparr>]\<rparr>"

definition thirdAssignment :: assignment where
  "thirdAssignment =
     \<lparr>a_id = 3, a_project = 2, assignee = 2, assignedBy = 3, a_status = Completed,
      a_progress = 100, estimatedHours = 8, actualHours = 0, a_deadline = 3000,
      completedAt = Some 500, timeEntries = []\<rparr>"

definition theStore :: store where
  "theStore =
     \<lparr>users = [theAdmin, theEngineer, theManager],
      projects = [firstProject, secondProject],
      assignments = [firstAssignment, secondAssignment, thirdAssignment]\<rparr>"

definition asAdmin :: caller where
  "asAdmin = \<lparr>c_id = 1, c_role = Admin\<rparr>"

definition asEngineer :: caller where
  "asEngineer = \<lparr>c_id = 2, c_role = Engineer\<rparr>"

definition asManager :: caller where
  "asManager = \<lparr>c_id = 3, c_role = Manager\<rparr>"

definition noFields :: assignmentUpdate where
  "noFields =
     \<lparr>up_progress = None, up_status = None, up_actualHours = None, up_estimatedHours = None,
      up_timeEntries = None, up_project = None, up_assignee = None, up_deadline = None,
      up_completedAt = None\<rparr>"

text \<open>Two callers from outside: an engineer and a manager with no part in the projects.\<close>

definition asOtherEngineer :: caller where
  "asOtherEngineer = \<lparr>c_id = 4, c_role = Engineer\<rparr>"

definition asOtherManager :: caller where
  "asOtherManager = \<lparr>c_id = 5, c_role = Manager\<rparr>"

text \<open>
  The store after the engineer has put progress 45 on the second assignment: the
  second project's assignments are at 45 and 100.
\<close>

definition storeAfterPut :: store where
  "storeAfterPut =
     \<lparr>users = [theAdmin, theEngineer, theManager],
      projects = [firstProject, secondProject\<lparr>p_progress := 73\<rparr>],
      assignments = [firstAssignment, secondAssignment\<lparr>a_progress := 45\<rparr>, thirdAssignment]\<rparr>"

text \<open>
  A document to save: the first assignment with progress 100 and a new time entry; the
  document and the store after \<^verbatim>\<open>save()\<close> at time 7.
\<close>

definition docToSave :: assignment where
  "docToSave =
     firstAssignment\<lparr>a_progress := 100,
       timeEntries := [\<lparr>te_date = 5, hours = 2, te_description = ''fix''\<rparr>]\<rparr>"

definition docAfterSave :: assignment where
  "docAfterSave = docToSave\<lparr>actualHours := 2, a_status := Completed, completedAt := Some 7\<rparr>"

definition storeAfterSave :: store where
  "storeAfterSave =
     \<lparr>users = [theAdmin, theEngineer, theManager],
      projects = [firstProject\<lparr>p_progress := 100, p_status := ProjCompleted\<rparr>, secondProject],
      assignments = [docAfterSave, secondAssignment, thirdAssignment]\<rparr>"

text \<open>
  The self-update \<^verbatim>\<open>{role: "admin", firstName: "X"}\<close> and the store after it.
\<close>

definition rolePayload :: userUpdate where
  "rolePayload = noUpdate\<lparr>uu_role := Some Admin, uu_firstName := Some ''X''\<rparr>"

definition storeAfterRename :: store where
  "storeAfterRename =
     \<lparr>users = [theAdmin, theEngineer\<lparr>firstName := ''X''\<rparr>, theManager],
      projects = [firstProject, secondProject],
      assignments = [firstAssignment, secondAssignment, thirdAssignment]\<rparr>"

text \<open>
  The store when the engineer's two open assignments are gone: no assignment of the
  engineer is active.
\<close>

definition idleStore :: store where
  "idleStore =
     \<lparr>users = [theAdmin, theEngineer, theManager],
      projects = [firstProject, secondProject],
      assignments = [thirdAssignment]\<rparr>"

text \<open>The store after the manager has put utilization 150 on the engineer.\<close>

definition storeAfterMetrics :: store where
  "storeAfterMetrics =
     \<lparr>users = [theAdmin, theEngineer\<lparr>utilization := 100\<rparr>, theManager],
      projects = [firstProject, secondProject],
      assignments = [firstAssignment, secondAssignment, thirdAssignment]\<rparr>"

section \<open>Facts about the store primitives\<close>

lemmas fixtures = theStore_def theAdmin_def theEngineer_def theManager_def firstProject_def
  secondProject_def firstAssignment_def secondAssignment_def thirdAssignment_def
  asAdmin_def asEngineer_def asManager_def asOtherEngineer_def asOtherManager_def noFields_def
  storeAfterPut_def docToSave_def docAfterSave_def storeAfterSave_def rolePayload_def
  storeAfterRename_def idleStore_def storeAfterMetrics_def

lemmas validateUser_defs = validateUser_def validName_def validAvailability_def validPercent_def
  optionAll_def departments_def experienceLevels_def emailMatch_def dottedWord_def isWordChar_def
  validPhone_def phoneMatch_def isDigit_def

lemmas userUpdate_defs = noUpdate_def allowedFields_def profileFields_def castUserUpdate_def
  validateUserUpdate_def applyUserUpdate_def orElse_def truthyString_def truthyNumber_def
  trim_def isSpace_def toLowerCase_def

lemma find_updateFirst:
  "find P xs = Some x \<Longrightarrow> P (f x) \<Longrightarrow> find P (updateFirst P f xs) = Some (f x)"
  by (induction xs) (auto split: if_splits)

lemma find_None_updateFirst: "find P xs = None \<Longrightarrow> updateFirst P f xs = xs"
  by (induction xs) (auto split: if_splits)

lemma updateFirst_const_idem:
  "P y \<Longrightarrow> updateFirst P (\<lambda>x. y) (updateFirst P (\<lambda>x. y) xs) = updateFirst P (\<lambda>x. y) xs"
  by (induction xs) auto

lemma find_Some_holds: "find P xs = Some x \<Longrightarrow> P x"
  by (induction xs) (auto split: if_splits)

lemma find_append_new: "find P xs = None \<Longrightarrow> P y \<Longrightarrow> find P (xs @ [y]) = Some y"
  by (induction xs) (auto split: if_splits)

lemma updateFirst_append_new:
  "find P xs = None \<Longrightarrow> P y \<Longrightarrow> updateFirst P (\<lambda>x. y) (xs @ [y]) = xs @ [y]"
  by (induction xs) (auto split: if_splits)

text \<open>The written document is the one that is then found, and writing it again changes nothing.\<close>

lemma find_writeDocument: "P y \<Longrightarrow> find P (writeDocument P y xs) = Some y"
  by (cases "find P xs") (simp_all add: writeDocument_def find_append_new find_updateFirst)

lemma writeDocument_idem:
  assumes "P y"
  shows "writeDocument P y (writeDocument P y xs) = writeDocument P y xs"
proof -
  from assms have "find P (writeDocument P y xs) = Some y"
    by (rule find_writeDocument)
  then have "writeDocument P y (writeDocument P y xs) =
      updateFirst P (\<lambda>x. y) (writeDocument P y xs)"
    by (simp add: writeDocument_def)
  also have "\<dots> = writeDocument P y xs"
    using assms
    by (cases "find P xs") (simp_all add: writeDocument_def updateFirst_append_new
        updateFirst_const_idem)
  finally show ?thesis .
qed

lemma Math_round_nearest: "\<bar>Math_round x - x\<bar> \<le> 1 / 2"
  unfolding Math_round_def by linarith

lemma orZero_id [simp]: "orZero x = x"
  by (simp add: orZero_def)

lemma find_by_unique_key:
  assumes "find (\<lambda>x. key x = k \<and> Q x) xs = Some y"
    and "distinct (map key xs)"
  shows "find (\<lambda>x. key x = k) xs = Some y"
  using assms
proof (induction xs)
  case Nil
  then show ?case by simp
next
  case (Cons x xs)
  show ?case
  proof (cases "key x = k")
    case True
    show ?thesis
    proof (cases "Q x")
      case True
      with \<open>key x = k\<close> Cons.prems show ?thesis by simp
    next
      case False
      with Cons.prems have later: "find (\<lambda>x. key x = k \<and> Q x) xs = Some y"
        by simp
      then have "y \<in> set xs" "key y = k"
        by (auto simp: find_Some_iff)
      then have "k \<in> set (map key xs)"
        by auto
      with True Cons.prems(2) show ?thesis by simp
    qed
  next
    case False
    with Cons show ?thesis by simp
  qed
qed

section \<open>Facts about double-precision arithmetic\<close>

text \<open>
  Rounding to a double keeps the sign. The decimal fractions of a request are not
  doubles: 0.1 is read as the double just above one tenth, and the double sum of 0.3
  and 0.6 is \<^verbatim>\<open>0.8999999999999999\<close>, the double below 0.9. Integers and the binary
  fractions of the store above are doubles, and so are their sums and means there.
\<close>

lemma ulp_pos: "0 < ulp x"
  by (simp add: ulp_def Let_def)

lemma roundHalfEven_nonneg: "0 \<le> x \<Longrightarrow> 0 \<le> roundHalfEven x"
  by (auto simp: roundHalfEven_def Let_def)

lemma toDouble_nonneg: "0 \<le> x \<Longrightarrow> 0 \<le> toDouble x"
  using ulp_pos [of x] by (simp add: toDouble_def roundHalfEven_nonneg)

lemma fadd_nonneg: "0 \<le> x \<Longrightarrow> 0 \<le> y \<Longrightarrow> 0 \<le> fadd x y"
  by (simp add: fadd_def toDouble_nonneg)

lemma toDouble_tenth: "toDouble (1 / 10) = 3602879701896397 / 36028797018963968"
  by code_simp

lemma toDouble_exact: "toDouble 45 = 45" "toDouble (257 / 8) = 257 / 8" "toDouble (125 / 2) = 125 / 2"
  by code_simp+

lemma fadd_rounds:
  "fadd (toDouble (3 / 10)) (toDouble (6 / 10)) = 8106479329266892 / 9007199254740992"
  "fadd (toDouble (3 / 10)) (toDouble (6 / 10)) < toDouble (9 / 10)"
  by code_simp+

section \<open>What the save hooks establish\<close>

text \<open>
  On \<^verbatim>\<open>document.save()\<close> the assignment's pre-save hook completes an assignment whose
  progress is 100, and stamps \<^verbatim>\<open>completedAt\<close> unless the status was
  \<^verbatim>\<open>completed\<close> already; with \<^verbatim>\<open>timeEntries\<close> modified it sets
  \<^verbatim>\<open>actualHours\<close> to the double-precision sum of the entries' hours, taken from left
  to right.
\<close>

lemma assignmentPreSave_fields:
  "a_status (assignmentPreSave now m a) =
     (if a_progress a = 100 then Completed
      else if 0 < a_progress a \<and> (a_status a = Pending \<or> a_status a = Active) then InProgress
      else a_status a)"
  "completedAt (assignmentPreSave now m a) =
     (if a_progress a = 100 \<and> a_status a \<noteq> Completed then Some now else completedAt a)"
  "actualHours (assignmentPreSave now m a) =
     (if m then reduceHours (timeEntries a) else actualHours a)"
  "a_id (assignmentPreSave now m a) = a_id a"
  "a_project (assignmentPreSave now m a) = a_project a"
  "assignee (assignmentPreSave now m a) = assignee a"
  "assignedBy (assignmentPreSave now m a) = assignedBy a"
  "a_progress (assignmentPreSave now m a) = a_progress a"
  "estimatedHours (assignmentPreSave now m a) = estimatedHours a"
  "a_deadline (assignmentPreSave now m a) = a_deadline a"
  "timeEntries (assignmentPreSave now m a) = timeEntries a"
  "assignment.more (assignmentPreSave now m a) = assignment.more a"
  by (auto simp: assignmentPreSave_def Let_def)

lemma assignmentPreSave_completes:
  assumes "a_progress a = 100"
  shows "a_status (assignmentPreSave now m a) = Completed"
    and "a_status a \<noteq> Completed \<Longrightarrow> completedAt (assignmentPreSave now m a) = Some now"
  using assms by (simp_all add: assignmentPreSave_fields)

lemma assignmentPreSave_hours:
  "actualHours (assignmentPreSave now True a) = reduceHours (timeEntries a)"
  by (simp add: assignmentPreSave_fields)

lemma reduceHours_example:
  "reduceHours [\<lparr>te_date = 10, hours = 5 / 2, te_description = []\<rparr>,
                \<lparr>te_date = 20, hours = 7 / 2, te_description = []\<rparr>,
                \<lparr>te_date = 30, hours = 3 / 4, te_description = []\<rparr>] = 27 / 4"
  "reduceHours [\<lparr>te_date = 10, hours = toDouble (3 / 10), te_description = []\<rparr>,
                \<lparr>te_date = 20, hours = toDouble (6 / 10), te_description = []\<rparr>] =
     8106479329266892 / 9007199254740992"
  by code_simp+

lemma projectPreSave_progress [simp]: "p_progress (projectPreSave p) = p_progress p"
  by (simp add: projectPreSave_def)

lemma projectPreSave_id [simp]: "p_id (projectPreSave p) = p_id p"
  by (simp add: projectPreSave_def)

text \<open>
  The project's pre-save hook: progress 100 completes the project, a positive progress
  takes it from \<^verbatim>\<open>planning\<close> to \<^verbatim>\<open>active\<close>; a completed project stays completed,
  and a cancelled one stays cancelled unless its progress is 100.
\<close>

lemma projectPreSave_rules:
  "p_progress p = 100 \<Longrightarrow> p_status (projectPreSave p) = ProjCompleted"
  "0 < p_progress p \<Longrightarrow> p_progress p \<noteq> 100 \<Longrightarrow> p_status p = Planning \<Longrightarrow>
     p_status (projectPreSave p) = ProjActive"
  "p_status p = ProjCompleted \<Longrightarrow> p_status (projectPreSave p) = ProjCompleted"
  "p_status p = ProjCancelled \<Longrightarrow> p_progress p \<noteq> 100 \<Longrightarrow>
     p_status (projectPreSave p) = ProjCancelled"
  by (auto simp: projectPreSave_def)

lemma saveAssignment_Some:
  assumes "saveAssignment now m a s = Some (a', s')"
  shows "validateAssignment now a"
    and "a' = assignmentPreSave now m a"
    and "s' = assignmentPostSave a'
            (s\<lparr>assignments := writeDocument (\<lambda>b. a_id b = a_id a) a' (assignments s)\<rparr>)"
  using assms by (auto simp: saveAssignment_def Let_def split: if_splits)

lemma assignmentPostSave_assignments [simp]:
  "assignments (assignmentPostSave a s) = assignments s"
  by (simp add: assignmentPostSave_def updateProgress_def saveProject_def split: option.splits)

text \<open>The saved document is the one that is then found under its id.\<close>

lemma saveAssignment_stored:
  assumes "saveAssignment now m a s = Some (a', s')"
  shows "findAssignment (a_id a) s' = Some a'"
proof -
  note first = saveAssignment_Some [OF assms]
  have "a_id a' = a_id a"
    by (simp add: first(2) assignmentPreSave_fields)
  then have "find (\<lambda>x. a_id x = a_id a)
      (writeDocument (\<lambda>x. a_id x = a_id a) a' (assignments s)) = Some a'"
    by (intro find_writeDocument)
  then show ?thesis
    by (simp add: first(3) findAssignment_def)
qed

text \<open>A save with progress 100 stores a completed assignment.\<close>

lemma saveAssignment_completes:
  assumes "saveAssignment now m a s = Some (a', s')"
    and "a_progress a = 100"
  shows "a_progress a' = 100" and "a_status a' = Completed"
    and "a_status a \<noteq> Completed \<Longrightarrow> completedAt a' = Some now"
  using assms(2) by (simp_all add: saveAssignment_Some(2) [OF assms(1)] assignmentPreSave_fields)

text \<open>
  Whenever \<^verbatim>\<open>POST /api/assignments/:id/time-entries\<close> succeeds, the stored
  \<^verbatim>\<open>actualHours\<close> is the double-precision sum of the hours of the stored time
  entries.
\<close>

lemma postTimeEntry_actualHours:
  assumes "postTimeEntry now c i body s = (Success code msg es, s')"
  shows "\<exists>a'. findAssignment i s' = Some a' \<and> timeEntries a' = es \<and>
           actualHours a' = reduceHours es"
proof -
  from assms obtain entry a a' where
    found: "findAssignment i s = Some a" and
    saved: "saveAssignment now True (a\<lparr>timeEntries := timeEntries a @ [entry]\<rparr>) s = Some (a', s')" and
    es: "es = timeEntries a'"
    by (auto simp: postTimeEntry_def split: option.splits if_splits)
  from found have "a_id a = i"
    using find_Some_holds [of "\<lambda>b. a_id b = i"] by (simp add: findAssignment_def)
  with saveAssignment_stored [OF saved] have "findAssignment i s' = Some a'"
    by simp
  moreover have "actualHours a' = reduceHours (timeEntries a')"
    by (simp add: saveAssignment_Some(2) [OF saved] assignmentPreSave_fields)
  ultimately show ?thesis
    using es by simp
qed

text \<open>
  The project that a save recomputes is written through the project's pre-save hook,
  with the mean of its assignments as progress; so its status follows the hook's rules.
\<close>

lemma projectPreSave_after:
  "p_progress (projectPreSave p) = 100 \<Longrightarrow> p_status (projectPreSave p) = ProjCompleted"
  "0 < p_progress (projectPreSave p) \<Longrightarrow> p_status (projectPreSave p) \<noteq> Planning"
proof -
  show "p_status (projectPreSave p) = ProjCompleted" if "p_progress (projectPreSave p) = 100"
    using that by (simp add: projectPreSave_rules(1))
  show "p_status (projectPreSave p) \<noteq> Planning" if "0 < p_progress (projectPreSave p)"
  proof -
    from that have "0 < p_progress p" by simp
    then show ?thesis by (auto simp: projectPreSave_def)
  qed
qed

lemma save_project_result:
  assumes "saveAssignment now m a s = Some (a', s')"
    and "findProject (a_project a') s' = Some p'"
  obtains p where
    "p' = projectPreSave (p\<lparr>p_progress := meanProgress (assignmentsOf (a_project a') s')\<rparr>)"
proof -
  define s1 where "s1 = s\<lparr>assignments := writeDocument (\<lambda>b. a_id b = a_id a) a' (assignments s)\<rparr>"
  from assms(1) have s': "s' = assignmentPostSave a' s1"
    by (auto simp: saveAssignment_def Let_def s1_def split: if_splits)
  show ?thesis
  proof (cases "findProject (a_project a') s1")
    case None
    with s' have "s' = s1" by (simp add: assignmentPostSave_def)
    with None assms(2) show ?thesis by simp
  next
    case (Some p)
    define q where "q = projectPreSave (p\<lparr>p_progress := meanProgress (assignmentsOf (p_id p) s1)\<rparr>)"
    from Some have fp: "find (\<lambda>q. p_id q = a_project a') (projects s1) = Some p"
      by (simp add: findProject_def)
    have pid: "p_id p = a_project a'"
      using find_Some_holds [OF fp] .
    from Some s' have s'_eq: "s' = s1\<lparr>projects := updateFirst (\<lambda>r. p_id r = a_project a') (\<lambda>r. q) (projects s1)\<rparr>"
      by (simp add: assignmentPostSave_def updateProgress_def saveProject_def q_def pid)
    have "find (\<lambda>r. p_id r = a_project a') (updateFirst (\<lambda>r. p_id r = a_project a') (\<lambda>r. q) (projects s1)) = Some q"
      by (rule find_updateFirst [OF fp]) (simp add: q_def pid)
    with assms(2) s'_eq have "p' = q"
      by (simp add: findProject_def)
    moreover have "assignmentsOf (a_project a') s' = assignmentsOf (a_project a') s1"
      by (simp add: s'_eq assignmentsOf_def)
    ultimately show ?thesis
      using that [of p] by (simp add: q_def pid)
  qed
qed

lemma save_project_status:
  assumes "saveAssignment now m a s = Some (a', s')"
    and "findProject (a_project a') s' = Some p'"
  shows "p_progress p' = 100 \<Longrightarrow> p_status p' = ProjCompleted"
    and "0 < p_progress p' \<Longrightarrow> p_status p' \<noteq> Planning"
proof -
  from save_project_result [OF assms] obtain p where p': "p' = projectPreSave p"
    by blast
  show "p_status p' = ProjCompleted" if "p_progress p' = 100"
    using that unfolding p' by (rule projectPreSave_after)
  show "p_status p' \<noteq> Planning" if "0 < p_progress p'"
    using that unfolding p' by (rule projectPreSave_after)
qed

lemma save_progress_100_completes:
  "map_option (\<lambda>(a, s'). (a_progress a, a_status a, completedAt a))
     (saveAssignment 7 False (firstAssignment\<lparr>a_progress := 100, a_status := Pending\<rparr>) theStore)
   = Some (100, Completed, Some 7)"
  by code_simp

lemma save_progress_completes_project:
  "map_option (\<lambda>(a, s'). map_option (\<lambda>p. (p_progress p, p_status p)) (findProject 1 s'))
     (saveAssignment 7 False (firstAssignment\<lparr>a_progress := 100\<rparr>) theStore)
   = Some (Some (100, ProjCompleted))"
  by code_simp

text \<open>
  A document that is not stored yet is inserted by the save, and the mean of its
  project counts it: a fourth assignment at progress 50 joins the first project.
\<close>

lemma save_inserts_new_document:
  "map_option
     (\<lambda>(a, s'). (map a_id (assignments s'), map a_progress (assignmentsOf 1 s'),
        map_option (\<lambda>p. (p_progress p, p_status p)) (findProject 1 s')))
     (saveAssignment 7 False (firstAssignment\<lparr>a_id := 4, a_progress := 50\<rparr>) theStore)
   = Some ([1, 2, 3, 4], [0, 50], Some (25, ProjActive))"
  by code_simp

lemma post_time_entry_sums_hours:
  "(case postTimeEntry 1 asEngineer 2
           \<lparr>b_date = Some 30, b_hours = Some (3 / 4), b_description = None\<rparr> theStore of
      (reply, s') \<Rightarrow>
        map_option (\<lambda>a. (map hours (timeEntries a), actualHours a)) (findAssignment 2 s'))
   = Some ([5 / 2, 7 / 2, 3 / 4], 27 / 4)"
  by code_simp

text \<open>A time entry dated 0 (the epoch) is refused like a missing date.\<close>

lemma post_time_entry_date_0:
  "postTimeEntry 1 asEngineer 2 \<lparr>b_date = Some 0, b_hours = Some 1, b_description = None\<rparr>
     theStore = (Failure 400 ''Date and hours are required'', theStore)"
  by (simp add: postTimeEntry_def newTimeEntry_def)

section \<open>Project progress\<close>

text \<open>
  The mean is computed in doubles and then rounded to an integer, a tie going up: the
  sum of the doubles 0.1 and 2.9 is 3, so the stored progress is 2, where the rounded
  mean of the two values themselves is 1.
\<close>

lemma meanProgress_in_doubles:
  "meanProgress [firstAssignment\<lparr>a_progress := toDouble (1 / 10)\<rparr>,
                 firstAssignment\<lparr>a_progress := toDouble (29 / 10)\<rparr>] = 2"
  "averageProgress [firstAssignment\<lparr>a_progress := toDouble (1 / 10)\<rparr>,
                    firstAssignment\<lparr>a_progress := toDouble (29 / 10)\<rparr>] = 2"
  "Math_round ((toDouble (1 / 10) + toDouble (29 / 10)) / 2) = 1"
  by code_simp+

lemma averageProgress_meanProgress: "averageProgress as = meanProgress as"
  by (simp add: averageProgress_def meanProgress_def Let_def)

lemma applyUpdate_id [simp]: "a_id (applyUpdate u a) = a_id a"
  by (simp add: applyUpdate_def)

lemma populateProject_None [simp]:
  "populateProject selected pid s = None \<longleftrightarrow> findProject pid s = None"
  by (simp add: populateProject_def)

lemma serializable_populateProject:
  "''teamMembers'' \<notin> set selected \<Longrightarrow>
     serializable (populateProject selected pid s) \<longleftrightarrow> findProject pid s = None"
  by (simp add: serializable_def populateProject_def teamSize_def split: option.splits)

text \<open>
  What \<^verbatim>\<open>PUT /api/assignments/:id\<close> does once the caller is permitted and the
  update is valid: it writes the assignment; when the assignment's project does not
  exist it answers 200; when the project exists it writes the project's progress and
  answers 500.
\<close>

lemma putAssignment_writes:
  assumes "putAssignment now c i body s = (reply, s')"
    and "reply \<noteq> Failure 404 ''Assignment not found''"
    and "reply \<noteq> Failure 403 ''Not authorized to update this assignment''"
    and "reply \<noteq> Failure 400 ''Validation error''"
  obtains a u where
    "findAssignment i s = Some a"
    "findAssignment i s' = Some (applyUpdate u a)"
    "findProject (a_project (applyUpdate u a)) s' = None \<and>
       reply = Success 200 ''Assignment updated successfully'' (applyUpdate u a) \<or>
     (\<exists>p'. findProject (a_project (applyUpdate u a)) s' = Some p' \<and>
        p_progress p' = averageProgress (assignmentsOf (a_project (applyUpdate u a)) s')) \<and>
       reply = Failure 500 ''Server error''"
proof -
  from assms obtain a where found: "findAssignment i s = Some a"
    by (auto simp: putAssignment_def split: option.splits)
  define u where "u = (if c_role c = Engineer then engineerFields body else body)"
  define a' where "a' = applyUpdate u a"
  define s1 where "s1 = s\<lparr>assignments := updateFirst (\<lambda>b. a_id b = i) (applyUpdate u) (assignments s)\<rparr>"
  let ?f = "\<lambda>q. q\<lparr>p_progress := averageProgress (assignmentsOf (a_project a') s1)\<rparr>"
  define s2 where "s2 = (case findProject (a_project a') s1 of
       None \<Rightarrow> s1
     | Some p \<Rightarrow> s1\<lparr>projects := updateFirst (\<lambda>q. p_id q = a_project a') ?f (projects s1)\<rparr>)"
  from assms found have result:
    "(reply, s') = (if findProject (a_project a') s1 = None
                    then (Success 200 ''Assignment updated successfully'' a', s2)
                    else (Failure 500 ''Server error'', s2))"
    by (auto simp: putAssignment_def Let_def u_def a'_def s1_def s2_def
        serializable_populateProject split: if_splits)
  from found have fa: "find (\<lambda>b. a_id b = i) (assignments s) = Some a"
    by (simp add: findAssignment_def)
  have aid: "a_id a = i"
    using find_Some_holds [OF fa] .
  have "find (\<lambda>b. a_id b = i) (updateFirst (\<lambda>b. a_id b = i) (applyUpdate u) (assignments s)) =
      Some (applyUpdate u a)"
    by (rule find_updateFirst [OF fa]) (simp add: aid)
  then have stored1: "findAssignment i s1 = Some a'"
    by (simp add: findAssignment_def s1_def a'_def)
  have same: "assignments s2 = assignments s1"
    by (simp add: s2_def split: option.splits)
  from result have s': "s' = s2"
    by (simp split: if_splits)
  have stored: "findAssignment i s' = Some a'"
    using stored1 same by (simp add: s' findAssignment_def)
  show ?thesis
  proof (cases "findProject (a_project a') s1")
    case None
    then have "s2 = s1" by (simp add: s2_def)
    with None result s' have "findProject (a_project a') s' = None"
      and "reply = Success 200 ''Assignment updated successfully'' a'"
      by simp_all
    with found stored show ?thesis
      using that [of a u] by (simp add: a'_def)
  next
    case (Some p)
    then have s2_eq: "s2 = s1\<lparr>projects := updateFirst (\<lambda>q. p_id q = a_project a') ?f (projects s1)\<rparr>"
      by (simp add: s2_def)
    from Some have fp: "find (\<lambda>q. p_id q = a_project a') (projects s1) = Some p"
      by (simp add: findProject_def)
    have pid: "p_id p = a_project a'"
      using find_Some_holds [OF fp] .
    have "find (\<lambda>q. p_id q = a_project a') (updateFirst (\<lambda>q. p_id q = a_project a') ?f (projects s1)) =
        Some (?f p)"
      by (rule find_updateFirst [OF fp]) (simp add: pid)
    then have "findProject (a_project a') s' = Some (?f p)"
      by (simp add: s' s2_eq findProject_def)
    moreover have "assignmentsOf (a_project a') s' = assignmentsOf (a_project a') s1"
      by (simp add: s' same assignmentsOf_def)
    moreover from Some result have "reply = Failure 500 ''Server error''"
      by simp
    ultimately show ?thesis
      using found stored that [of a u] by (simp add: a'_def)
  qed
qed

text \<open>
  The update route leaves the project that the assignment refers to after the update
  with the route's average, which is the mean of \<^verbatim>\<open>updateProgress\<close>.
\<close>

lemma put_project_progress:
  assumes "putAssignment now c i body s = (Failure 500 ''Server error'', s')"
    and "findAssignment i s' = Some a'"
    and "findProject (a_project a') s' = Some p'"
  shows "p_progress p' = meanProgress (assignmentsOf (a_project a') s')"
proof -
  from assms(1) obtain a u where
    "findAssignment i s' = Some (applyUpdate u a)"
    "\<exists>p'. findProject (a_project (applyUpdate u a)) s' = Some p' \<and>
        p_progress p' = averageProgress (assignmentsOf (a_project (applyUpdate u a)) s')"
    by (rule putAssignment_writes) auto
  with assms(2,3) show ?thesis
    by (auto simp: averageProgress_meanProgress)
qed

text \<open>The route answers 200 only for an assignment whose project does not exist.\<close>

lemma put_success_without_project:
  assumes "putAssignment now c i body s = (Success code msg a', s')"
  shows "findProject (a_project a') s' = None"
proof -
  from assms obtain a u where
    "findProject (a_project (applyUpdate u a)) s' = None \<and>
       Success code msg a' = Success 200 ''Assignment updated successfully'' (applyUpdate u a) \<or>
     (\<exists>p'. findProject (a_project (applyUpdate u a)) s' = Some p' \<and>
        p_progress p' = averageProgress (assignmentsOf (a_project (applyUpdate u a)) s')) \<and>
       Success code msg a' = Failure 500 ''Server error''"
    by (rule putAssignment_writes) auto
  then show ?thesis by auto
qed

text \<open>A save leaves it with the mean of \<^verbatim>\<open>updateProgress\<close>.\<close>

lemma save_project_progress:
  assumes "saveAssignment now m a s = Some (a', s')"
    and "findProject (a_project a') s' = Some p'"
  shows "p_progress p' = meanProgress (assignmentsOf (a_project a') s')"
proof -
  from save_project_result [OF assms] obtain p where
    "p' = projectPreSave (p\<lparr>p_progress := meanProgress (assignmentsOf (a_project a') s')\<rparr>)" .
  then show ?thesis by simp
qed

text \<open>
  The engineer puts progress 45 on the second assignment: the second project's
  assignments are at 45 and 100, the mean is 72.5 and the stored progress 73. The
  answer is 500, because the project exists.
\<close>

lemma put_progress_example:
  "putAssignment 0 asEngineer 2 (noFields\<lparr>up_progress := Some 45\<rparr>) theStore =
     (Failure 500 ''Server error'', storeAfterPut)"
  by code_simp


section \<open>Recomputing twice\<close>

lemma assignmentPreSave_idem:
  assumes "m2 \<longrightarrow> m"
  shows "assignmentPreSave now2 m2 (assignmentPreSave now m a) = assignmentPreSave now m a"
  using assms by (intro assignment.equality) (auto simp: assignmentPreSave_fields)

lemma projectPreSave_idem: "projectPreSave (projectPreSave p) = projectPreSave p"
  by (simp add: projectPreSave_def)

lemma foldl_fadd_nonneg:
  "0 \<le> z \<Longrightarrow> list_all validTimeEntry es \<Longrightarrow>
     0 \<le> foldl (\<lambda>total entry. fadd total (hours entry)) z es"
  by (induction es arbitrary: z) (auto simp: validTimeEntry_def fadd_nonneg)

lemma reduceHours_nonneg: "list_all validTimeEntry es \<Longrightarrow> 0 \<le> reduceHours es"
  by (simp add: reduceHours_def foldl_fadd_nonneg)

lemma validateAssignment_preSave:
  assumes "validateAssignment now a" and "now2 < a_deadline a"
  shows "validateAssignment now2 (assignmentPreSave now m a)"
proof -
  have "0 \<le> actualHours (assignmentPreSave now m a)"
    using assms(1) reduceHours_nonneg [of "timeEntries a"]
    by (simp add: assignmentPreSave_fields validateAssignment_def)
  with assms show ?thesis
    by (simp add: validateAssignment_def assignmentPreSave_fields)
qed

lemma assignmentPostSave_idem:
  "assignmentPostSave a (assignmentPostSave a s) = assignmentPostSave a s"
proof (cases "findProject (a_project a) s")
  case None
  then show ?thesis by (simp add: assignmentPostSave_def)
next
  case (Some p)
  define M where "M = meanProgress (assignmentsOf (a_project a) s)"
  define q where "q = projectPreSave (p\<lparr>p_progress := M\<rparr>)"
  define t where "t = s\<lparr>projects := updateFirst (\<lambda>r. p_id r = a_project a) (\<lambda>r. q) (projects s)\<rparr>"
  from Some have fp: "find (\<lambda>r. p_id r = a_project a) (projects s) = Some p"
    by (simp add: findProject_def)
  have pid: "p_id p = a_project a"
    using find_Some_holds [OF fp] .
  have qid: "p_id q = a_project a"
    by (simp add: q_def pid)
  have first: "assignmentPostSave a s = t"
    using Some by (simp add: assignmentPostSave_def updateProgress_def saveProject_def
        t_def q_def M_def pid)
  have "find (\<lambda>r. p_id r = a_project a) (projects t) = Some q"
    unfolding t_def using find_updateFirst [OF fp, of "\<lambda>r. q"] qid by simp
  then have ft: "findProject (a_project a) t = Some q"
    by (simp add: findProject_def)
  have Mt: "meanProgress (assignmentsOf (a_project a) t) = M"
    by (simp add: M_def t_def assignmentsOf_def)
  have "p_progress q = M"
    by (simp add: q_def)
  then have same: "q\<lparr>p_progress := M\<rparr> = q"
    by simp
  have "projectPreSave q = q"
    unfolding q_def by (rule projectPreSave_idem)
  then have qq: "projectPreSave (q\<lparr>p_progress := M\<rparr>) = q"
    by (simp only: same)
  have "assignmentPostSave a t = t"
    using ft by (simp add: assignmentPostSave_def updateProgress_def saveProject_def qid Mt qq)
      (simp add: t_def updateFirst_const_idem qid)
  with first show ?thesis by simp
qed

text \<open>
  Claim C8: the derivations (hours, assignment status, project progress, project status)
  run twice in a row with no change of data in between give the same assignment and the
  same store the second time. The first run is a successful \<^verbatim>\<open>save()\<close>; the second
  runs with \<^verbatim>\<open>isModified("timeEntries")\<close> false or as before (\<open>m2 \<longrightarrow> m\<close>), at any
  later time at which the deadline still passes validation. In particular the
  \<^verbatim>\<open>completedAt\<close> stamp of the first run is kept.
\<close>

theorem recompute_twice_changes_nothing:
  assumes "saveAssignment now m a s = Some (a', s')"
    and "now2 < a_deadline a'"
    and "m2 \<longrightarrow> m"
  shows "assignmentPreSave now2 m2 a' = a' \<and>
         assignmentPostSave a' s' = s' \<and>
         saveAssignment now2 m2 a' s' = Some (a', s')"
proof -
  note first = saveAssignment_Some [OF assms(1)]
  have hook: "assignmentPreSave now2 m2 a' = a'"
    unfolding first(2) using assms(3) by (rule assignmentPreSave_idem)
  have post: "assignmentPostSave a' s' = s'"
    unfolding first(3) by (rule assignmentPostSave_idem)
  have valid: "validateAssignment now2 a'"
    unfolding first(2) using first(1) assms(2)
    by (intro validateAssignment_preSave) (simp_all add: first(2) assignmentPreSave_fields)
  have same_id: "a_id a' = a_id a"
    by (simp add: first(2) assignmentPreSave_fields)
  have written: "writeDocument (\<lambda>b. a_id b = a_id a') a' (assignments s') = assignments s'"
    unfolding first(3) by (simp add: same_id writeDocument_idem)
  have "saveAssignment now2 m2 a' s' = Some (a', s')"
    using valid by (simp add: saveAssignment_def hook written post)
  with hook post show ?thesis by simp
qed

text \<open>
  The first assignment is saved at time 7 with progress 100 and a new time entry of 2
  hours: it is completed, its hours are 2, its project is completed at progress 100.
  Saving the result again at time 8 changes nothing.
\<close>

theorem recompute_twice_changes_nothing_witness:
  "saveAssignment 7 True docToSave theStore = Some (docAfterSave, storeAfterSave) \<and>
   8 < a_deadline docAfterSave \<and>
   assignmentPreSave 8 False docAfterSave = docAfterSave \<and>
   assignmentPostSave docAfterSave storeAfterSave = storeAfterSave \<and>
   saveAssignment 8 False docAfterSave storeAfterSave = Some (docAfterSave, storeAfterSave)"
proof -
  have first: "saveAssignment 7 True docToSave theStore = Some (docAfterSave, storeAfterSave)"
    by code_simp
  have deadline: "8 < a_deadline docAfterSave"
    by (simp add: fixtures)
  have flags: "False \<longrightarrow> True"
    by simp
  from recompute_twice_changes_nothing [OF first deadline flags] first deadline
  show ?thesis by simp
qed

section \<open>The update route and the save hooks\<close>

text \<open>
  Claim C1: after any update that sets an assignment's progress to 100, its status is
  \<^verbatim>\<open>completed\<close> and \<^verbatim>\<open>completedAt\<close> is set, whatever status the payload asked
  for and whichever operation made the update, \<^verbatim>\<open>PUT /api/assignments/:id\<close>
  included.

  The route does not do this. The engineer of the store sends
  \<^verbatim>\<open>{progress: 100, status: "pending"}\<close> for the first assignment: the stored
  assignment has progress 100, status \<^verbatim>\<open>pending\<close> and no \<^verbatim>\<open>completedAt\<close>, and
  the answer is 500. The rule lives in the schema's pre-save hook, which
  \<^verbatim>\<open>findByIdAndUpdate\<close> does not run. The same document going through \<^verbatim>\<open>save()\<close>
  is completed (\<open>save_progress_100_completes\<close>, and \<open>saveAssignment_completes\<close> for
  every save).
\<close>

theorem put_progress_100_skips_completion:
  "let (reply, s') =
         putAssignment 0 asEngineer 1
           (noFields\<lparr>up_progress := Some 100, up_status := Some Pending\<rparr>) theStore
   in reply = Failure 500 ''Server error'' \<and>
      map_option (\<lambda>a. (a_progress a, a_status a, completedAt a)) (findAssignment 1 s') =
        Some (100, Pending, None)"
  by code_simp

text \<open>
  Claim C2: after any mutation of an assignment's \<^verbatim>\<open>timeEntries\<close>, the stored
  \<^verbatim>\<open>actualHours\<close> is the floating-point sum of the hours of all its time entries.

  \<^verbatim>\<open>POST /api/assignments/:id/time-entries\<close> keeps this
  (\<open>postTimeEntry_actualHours\<close>), the update route does not: the admin replaces the
  second assignment's two entries (2.5 and 3.5 hours) by one entry of 5 hours, and the
  stored \<^verbatim>\<open>actualHours\<close> is still 6. The answer is 500.
\<close>

theorem put_timeEntries_keeps_actualHours:
  "let (reply, s') =
         putAssignment 0 asAdmin 2
           (noFields\<lparr>up_timeEntries :=
              Some [\<lparr>te_date = 30, hours = 5, te_description = ''all''\<rparr>]\<rparr>) theStore
   in reply = Failure 500 ''Server error'' \<and>
      map_option (\<lambda>a. (map hours (timeEntries a), actualHours a)) (findAssignment 2 s') =
        Some ([5], 6)"
  by code_simp

text \<open>
  Claim C4: on every path that changes a project's progress, the recomputation after an
  assignment update included, progress 100 makes the project \<^verbatim>\<open>completed\<close> and a
  positive progress takes it from \<^verbatim>\<open>planning\<close> to \<^verbatim>\<open>active\<close>; no path takes a
  project back out of \<^verbatim>\<open>completed\<close> or \<^verbatim>\<open>cancelled\<close>.

  The recomputation of \<^verbatim>\<open>PUT /api/assignments/:id\<close> writes the progress with
  \<^verbatim>\<open>Project.findByIdAndUpdate\<close>, so the project's pre-save hook does not run: the
  engineer sets the first assignment's progress to 100, the first project's progress
  becomes 100 and its status is still \<^verbatim>\<open>planning\<close>; the answer is 500
  (\<open>save_progress_completes_project\<close> is the same change going through
  \<^verbatim>\<open>save()\<close>, \<open>save_project_status\<close> holds for every save, and
  \<open>projectPreSave_rules\<close> is the hook: it never leaves \<^verbatim>\<open>completed\<close>, and leaves
  \<^verbatim>\<open>cancelled\<close> only for \<^verbatim>\<open>completed\<close> at progress 100).
\<close>

theorem put_progress_keeps_project_status:
  "let (reply, s') =
         putAssignment 0 asEngineer 1 (noFields\<lparr>up_progress := Some 100\<rparr>) theStore
   in reply = Failure 500 ''Server error'' \<and>
      map_option (\<lambda>p. (p_progress p, p_status p)) (findProject 1 theStore) =
        Some (0, Planning) \<and>
      map_option (\<lambda>p. (p_progress p, p_status p)) (findProject 1 s') = Some (100, Planning)"
  by code_simp

section \<open>Reading one assignment or project\<close>

text \<open>
  Claim C5, as stated: a target that exists but is outside the caller's scope gets the
  same NotFound answer as a target that does not exist. It does not: an engineer who
  asks for another engineer's assignment is answered 403, and 404 for an id that no
  assignment has.
\<close>

theorem hidden_target_answers_403_not_404:
  "findAssignment 1 theStore = Some firstAssignment \<and> findAssignment 9 theStore = None \<and>
   getAssignment asOtherEngineer 1 theStore =
     Failure 403 ''Not authorized to access this assignment'' \<and>
   getAssignment asOtherEngineer 9 theStore = Failure 404 ''Assignment not found'' \<and>
   getAssignment asOtherEngineer 1 theStore \<noteq> getAssignment asOtherEngineer 9 theStore"
  by (simp add: fixtures getAssignment_def findAssignment_def findUser_def)

text \<open>
  The guards read the populated user behind a reference. The references are not
  checked when they are written: an admin can put an assignee that no user has, and a
  read of that assignment by an engineer is then answered 500, and so is a permitted
  read of an assignment whose project exists.
\<close>

lemma isTeamMember_resolved:
  "list_all (\<lambda>member. findUser (tm_user member) s \<noteq> None) members \<Longrightarrow>
     isTeamMember c members s = Some (list_ex (\<lambda>member. tm_user member = c_id c) members)"
proof (induction members)
  case Nil
  then show ?case by simp
next
  case (Cons member members)
  then obtain u where u: "findUser (tm_user member) s = Some u"
    by auto
  then have "u_id u = tm_user member"
    using find_Some_holds [of "\<lambda>v. u_id v = tm_user member" "users s" u]
    by (simp add: findUser_def)
  with Cons u show ?case by simp
qed

lemma dangling_assignee_answers_500:
  "getAssignment asOtherEngineer 1
     (snd (putAssignment 0 asAdmin 1 (noFields\<lparr>up_assignee := Some 9\<rparr>) theStore)) =
   Failure 500 ''Server error''"
  by code_simp

lemma permitted_read_answers_500:
  "getAssignment asEngineer 1 theStore = Failure 500 ''Server error''"
  "getAssignment asAdmin 1 theStore = Failure 500 ''Server error''"
  by code_simp+

lemma permitted_project_read:
  "getProject asEngineer 1 theStore = Success 200 [] firstProject"
  "getProject asManager 1 theStore = Success 200 [] firstProject"
  "getProject asAdmin 1 theStore = Success 200 [] firstProject"
  by code_simp+

text \<open>
  Claim C5, amended: \<^verbatim>\<open>GET /api/assignments/:id\<close> and \<^verbatim>\<open>GET /api/projects/:id\<close>
  answer 404 exactly when no document has the id. A target that exists and is hidden
  from the caller (an assignment of another engineer; a project of another manager, or
  one whose team the engineer is not on) is answered 403 \<^verbatim>\<open>Not authorized\<close>,
  when the users that the guard reads exist: the assignment's assignee, the project's
  manager, the users of the project's team members.
\<close>

theorem scoped_read_answers:
  "(getAssignment c i s = Failure 404 ''Assignment not found'' \<longleftrightarrow> findAssignment i s = None) \<and>
   (findAssignment i s = Some a \<and> c_role c = Engineer \<and> assignee a \<noteq> c_id c \<and>
      findUser (assignee a) s \<noteq> None \<longrightarrow>
      getAssignment c i s = Failure 403 ''Not authorized to access this assignment'') \<and>
   (getProject c i s = Failure 404 ''Project not found'' \<longleftrightarrow> findProject i s = None) \<and>
   (findProject i s = Some p \<and>
      (c_role c = Manager \<and> manager p \<noteq> c_id c \<and> findUser (manager p) s \<noteq> None \<or>
       c_role c = Engineer \<and> \<not> list_ex (\<lambda>member. tm_user member = c_id c) (teamMembers p) \<and>
         list_all (\<lambda>member. findUser (tm_user member) s \<noteq> None) (teamMembers p)) \<longrightarrow>
      getProject c i s = Failure 403 ''Not authorized to access this project'')"
proof -
  have found: "u_id u = k" if "findUser k s = Some u" for k u
    using that find_Some_holds [of "\<lambda>v. u_id v = k" "users s" u] by (simp add: findUser_def)
  have 1: "getAssignment c i s = Failure 404 ''Assignment not found'' \<longleftrightarrow> findAssignment i s = None"
    by (auto simp: getAssignment_def sendAssignment_def split: option.splits)
  have 2: "getAssignment c i s = Failure 403 ''Not authorized to access this assignment''"
    if "findAssignment i s = Some a" "c_role c = Engineer" "assignee a \<noteq> c_id c"
      "findUser (assignee a) s \<noteq> None"
    using that found [of "assignee a"] by (auto simp: getAssignment_def)
  have 3: "getProject c i s = Failure 404 ''Project not found'' \<longleftrightarrow> findProject i s = None"
    by (auto simp: getProject_def split: option.splits)
  have 4: "getProject c i s = Failure 403 ''Not authorized to access this project''"
    if "findProject i s = Some p" "c_role c = Manager" "manager p \<noteq> c_id c"
      "findUser (manager p) s \<noteq> None"
    using that found [of "manager p"] by (auto simp: getProject_def)
  have 5: "getProject c i s = Failure 403 ''Not authorized to access this project''"
    if "findProject i s = Some p" "c_role c = Engineer"
      "\<not> list_ex (\<lambda>member. tm_user member = c_id c) (teamMembers p)"
      "list_all (\<lambda>member. findUser (tm_user member) s \<noteq> None) (teamMembers p)"
    using that isTeamMember_resolved [of s "teamMembers p" c] by (simp add: getProject_def)
  from 1 2 3 4 5 show ?thesis by blast
qed

theorem scoped_read_answers_witness:
  "findAssignment 1 theStore = Some firstAssignment \<and> c_role asOtherEngineer = Engineer \<and>
   assignee firstAssignment \<noteq> c_id asOtherEngineer \<and>
   findUser (assignee firstAssignment) theStore = Some theEngineer \<and>
   getAssignment asOtherEngineer 1 theStore =
     Failure 403 ''Not authorized to access this assignment'' \<and>
   findProject 1 theStore = Some firstProject \<and> c_role asOtherManager = Manager \<and>
   manager firstProject \<noteq> c_id asOtherManager \<and>
   findUser (manager firstProject) theStore = Some theManager \<and>
   getProject asOtherManager 1 theStore = Failure 403 ''Not authorized to access this project'' \<and>
   map tm_user (teamMembers firstProject) = [2] \<and>
   getProject asOtherEngineer 1 theStore = Failure 403 ''Not authorized to access this project'' \<and>
   findProject 9 theStore = None \<and>
   getProject asOtherManager 9 theStore = Failure 404 ''Project not found''"
proof -
  have a: "findAssignment 1 theStore = Some firstAssignment"
    by (simp add: fixtures findAssignment_def)
  have b: "c_role asOtherEngineer = Engineer" "assignee firstAssignment \<noteq> c_id asOtherEngineer"
    "findUser (assignee firstAssignment) theStore = Some theEngineer"
    by (simp_all add: fixtures findUser_def)
  have p: "findProject 1 theStore = Some firstProject"
    by (simp add: fixtures findProject_def)
  have q: "c_role asOtherManager = Manager" "manager firstProject \<noteq> c_id asOtherManager"
    "findUser (manager firstProject) theStore = Some theManager"
    by (simp_all add: fixtures findUser_def)
  have t: "map tm_user (teamMembers firstProject) = [2]"
    "\<not> list_ex (\<lambda>member. tm_user member = c_id asOtherEngineer) (teamMembers firstProject)"
    "list_all (\<lambda>member. findUser (tm_user member) theStore \<noteq> None) (teamMembers firstProject)"
    by (simp_all add: fixtures findUser_def)
  have n: "findProject 9 theStore = None"
    by (simp add: fixtures findProject_def)
  from scoped_read_answers [of asOtherEngineer 1 theStore firstAssignment firstProject] a b
  have 1: "getAssignment asOtherEngineer 1 theStore =
      Failure 403 ''Not authorized to access this assignment''"
    by simp
  from scoped_read_answers [of asOtherManager 1 theStore firstAssignment firstProject] p q
  have 2: "getProject asOtherManager 1 theStore = Failure 403 ''Not authorized to access this project''"
    by simp
  from scoped_read_answers [of asOtherEngineer 1 theStore firstAssignment firstProject] p b(1) t(2,3)
  have 3: "getProject asOtherEngineer 1 theStore = Failure 403 ''Not authorized to access this project''"
    by simp
  from scoped_read_answers [of asOtherManager 9 theStore firstAssignment firstProject] n
  have 4: "getProject asOtherManager 9 theStore = Failure 404 ''Project not found''"
    by simp
  from a b p q t(1) n 1 2 3 4 show ?thesis by simp
qed

section \<open>Self-update of a user\<close>

text \<open>
  Claim C6, as stated: on both self-update paths only the six fields
  \<^verbatim>\<open>firstName, lastName, phone, location, skills, availability\<close> of the payload are
  applied. \<^verbatim>\<open>PUT /api/auth/profile\<close> applies \<^verbatim>\<open>department\<close> and
  \<^verbatim>\<open>experienceLevel\<close> as well: the engineer moves from Backend, senior to QA,
  principal.
\<close>

theorem profile_applies_department:
  "let (reply, s') =
         putProfile asEngineer
           (noUpdate\<lparr>uu_department := Some ''QA'', uu_experienceLevel := Some ''principal''\<rparr>)
           theStore
   in reply = Success 200 ''Profile updated successfully''
                (theEngineer\<lparr>department := ''QA'', experienceLevel := ''principal''\<rparr>) \<and>
      map_option (\<lambda>u. (department u, experienceLevel u)) (findUser 2 theStore) =
        Some (''Backend'', ''senior'') \<and>
      map_option (\<lambda>u. (department u, experienceLevel u)) (findUser 2 s') =
        Some (''QA'', ''principal'')"
  by (simp add: fixtures putProfile_def findUser_def userUpdate_defs validateUser_defs Let_def)

text \<open>
  Claim C6, amended: a self-update through \<^verbatim>\<open>PUT /api/users/:id\<close> by an engineer
  either fails validation and changes nothing, or stores the user with the six fields
  taken from the payload where it has them (strings trimmed) and every other field as it
  was. Through \<^verbatim>\<open>PUT /api/auth/profile\<close> the same holds with eight fields, the six
  and \<^verbatim>\<open>department\<close> and \<^verbatim>\<open>experienceLevel\<close>, each taken only when its value is
  truthy (\<^verbatim>\<open>skills\<close> whenever present). The role is the old one on both paths.
\<close>

theorem engineer_self_update_mask:
  assumes "findUser i s = Some usr"
  shows
    "(c_role c = Engineer \<and> c_id c = i \<and> putUser c i body s = (reply, s') \<longrightarrow>
        (reply = Failure 400 ''Validation error'' \<and> s' = s) \<or>
        (let usr' = usr\<lparr>firstName := orElse (map_option trim (uu_firstName body)) (firstName usr),
                        lastName := orElse (map_option trim (uu_lastName body)) (lastName usr),
                        phone := (case uu_phone body of None \<Rightarrow> phone usr | Some x \<Rightarrow> Some (trim x)),
                        location := (case uu_location body of None \<Rightarrow> location usr | Some x \<Rightarrow> Some (trim x)),
                        skills := orElse (map_option (map trim) (uu_skills body)) (skills usr),
                        availability := orElse (uu_availability body) (availability usr)\<rparr>
         in reply = Success 200 ''User updated successfully'' usr' \<and>
            findUser i s' = Some usr' \<and> u_role usr' = u_role usr)) \<and>
     (c_id c = i \<and> putProfile c body s = (reply, s') \<longrightarrow>
        (reply = Failure 400 ''Validation error'' \<and> s' = s) \<or>
        (let usr' = usr\<lparr>firstName := orElse (map_option trim (truthyString (uu_firstName body))) (firstName usr),
                        lastName := orElse (map_option trim (truthyString (uu_lastName body))) (lastName usr),
                        phone := (case truthyString (uu_phone body) of None \<Rightarrow> phone usr | Some x \<Rightarrow> Some (trim x)),
                        location := (case truthyString (uu_location body) of None \<Rightarrow> location usr | Some x \<Rightarrow> Some (trim x)),
                        skills := orElse (map_option (map trim) (uu_skills body)) (skills usr),
                        availability := orElse (truthyNumber (uu_availability body)) (availability usr),
                        department := orElse (truthyString (uu_department body)) (department usr),
                        experienceLevel := orElse (truthyString (uu_experienceLevel body)) (experienceLevel usr)\<rparr>
         in reply = Success 200 ''Profile updated successfully'' usr' \<and>
            findUser i s' = Some usr' \<and> u_role usr' = u_role usr))"
proof -
  from assms have fu: "find (\<lambda>v. u_id v = i) (users s) = Some usr"
    by (simp add: findUser_def)
  have uid: "u_id usr = i"
    using find_Some_holds [OF fu] .
  have stored: "findUser i (s\<lparr>users := updateFirst (\<lambda>v. u_id v = i) f (users s)\<rparr>) = Some (f usr)"
    if "u_id (f usr) = i" for f
    using find_updateFirst [OF fu, of f] that by (simp add: findUser_def)
  have put: "applyUserUpdate (castUserUpdate (allowedFields body)) usr =
      usr\<lparr>firstName := orElse (map_option trim (uu_firstName body)) (firstName usr),
          lastName := orElse (map_option trim (uu_lastName body)) (lastName usr),
          phone := (case uu_phone body of None \<Rightarrow> phone usr | Some x \<Rightarrow> Some (trim x)),
          location := (case uu_location body of None \<Rightarrow> location usr | Some x \<Rightarrow> Some (trim x)),
          skills := orElse (map_option (map trim) (uu_skills body)) (skills usr),
          availability := orElse (uu_availability body) (availability usr)\<rparr>"
    by (simp add: applyUserUpdate_def castUserUpdate_def allowedFields_def noUpdate_def orElse_def
        split: option.splits)
  have profile: "applyUserUpdate (castUserUpdate (profileFields body)) usr =
      usr\<lparr>firstName := orElse (map_option trim (truthyString (uu_firstName body))) (firstName usr),
          lastName := orElse (map_option trim (truthyString (uu_lastName body))) (lastName usr),
          phone := (case truthyString (uu_phone body) of None \<Rightarrow> phone usr | Some x \<Rightarrow> Some (trim x)),
          location := (case truthyString (uu_location body) of None \<Rightarrow> location usr | Some x \<Rightarrow> Some (trim x)),
          skills := orElse (map_option (map trim) (uu_skills body)) (skills usr),
          availability := orElse (truthyNumber (uu_availability body)) (availability usr),
          department := orElse (truthyString (uu_department body)) (department usr),
          experienceLevel := orElse (truthyString (uu_experienceLevel body)) (experienceLevel usr)\<rparr>"
    by (simp add: applyUserUpdate_def castUserUpdate_def profileFields_def noUpdate_def orElse_def
        split: option.splits)
  have id1: "u_id (applyUserUpdate u usr) = i" for u
    by (simp add: applyUserUpdate_def uid)
  have role1: "u_role (applyUserUpdate (castUserUpdate (allowedFields body)) usr) = u_role usr"
    "u_role (applyUserUpdate (castUserUpdate (profileFields body)) usr) = u_role usr"
    by (simp_all add: put profile)
  have A: "(reply = Failure 400 ''Validation error'' \<and> s' = s) \<or>
        (reply = Success 200 ''User updated successfully''
                   (applyUserUpdate (castUserUpdate (allowedFields body)) usr) \<and>
         findUser i s' = Some (applyUserUpdate (castUserUpdate (allowedFields body)) usr))"
    if "c_role c = Engineer" "c_id c = i" "putUser c i body s = (reply, s')"
    using that assms stored [of "applyUserUpdate (castUserUpdate (allowedFields body))", OF id1]
    by (auto simp: putUser_def Let_def split: if_splits)
  have B: "(reply = Failure 400 ''Validation error'' \<and> s' = s) \<or>
        (reply = Success 200 ''Profile updated successfully''
                   (applyUserUpdate (castUserUpdate (profileFields body)) usr) \<and>
         findUser i s' = Some (applyUserUpdate (castUserUpdate (profileFields body)) usr))"
    if "c_id c = i" "putProfile c body s = (reply, s')"
    using that assms
      stored [of "\<lambda>v. applyUserUpdate (castUserUpdate (profileFields body)) usr", OF id1]
    by (auto simp: putProfile_def Let_def split: if_splits)
  show ?thesis
    unfolding Let_def put [symmetric] profile [symmetric]
    using A B role1 by blast
qed

text \<open>
  The payload \<^verbatim>\<open>{role: "admin", firstName: "X"}\<close> changes the first name and nothing
  else, on both paths.
\<close>

theorem engineer_self_update_mask_witness:
  "findUser 2 theStore = Some theEngineer \<and> c_role asEngineer = Engineer \<and> c_id asEngineer = 2 \<and>
   putUser asEngineer 2 rolePayload theStore =
     (Success 200 ''User updated successfully'' (theEngineer\<lparr>firstName := ''X''\<rparr>),
      storeAfterRename) \<and>
   putProfile asEngineer rolePayload theStore =
     (Success 200 ''Profile updated successfully'' (theEngineer\<lparr>firstName := ''X''\<rparr>),
      storeAfterRename) \<and>
   findUser 2 storeAfterRename = Some (theEngineer\<lparr>firstName := ''X''\<rparr>) \<and>
   u_role (theEngineer\<lparr>firstName := ''X''\<rparr>) = Engineer"
proof -
  have found: "findUser 2 theStore = Some theEngineer"
    by (simp add: fixtures findUser_def)
  have who: "c_role asEngineer = Engineer" "c_id asEngineer = 2"
    by (simp_all add: fixtures)
  have put: "putUser asEngineer 2 rolePayload theStore =
     (Success 200 ''User updated successfully'' (theEngineer\<lparr>firstName := ''X''\<rparr>),
      storeAfterRename)"
    by (simp add: fixtures putUser_def findUser_def userUpdate_defs validateUser_defs Let_def)
  have profile: "putProfile asEngineer rolePayload theStore =
     (Success 200 ''Profile updated successfully'' (theEngineer\<lparr>firstName := ''X''\<rparr>),
      storeAfterRename)"
    by (simp add: fixtures putProfile_def findUser_def userUpdate_defs validateUser_defs Let_def)
  from engineer_self_update_mask [OF found, of asEngineer rolePayload
      "Success 200 ''User updated successfully'' (theEngineer\<lparr>firstName := ''X''\<rparr>)"
      storeAfterRename] who put
  have "findUser 2 storeAfterRename = Some (theEngineer\<lparr>firstName := ''X''\<rparr>) \<and>
      u_role (theEngineer\<lparr>firstName := ''X''\<rparr>) = Engineer"
    by (simp add: Let_def) (simp add: fixtures userUpdate_defs)
  with found who put profile show ?thesis by simp
qed

section \<open>Workload\<close>

text \<open>
  The figures that \<^verbatim>\<open>GET /api/engineers/:id/workload\<close> computes. For availability
  40 and active assignments of 25 and 20 hours: 113 percent, overloaded, no hours
  available. The percentage is a double: 41 hours at availability 40 give
  \<^verbatim>\<open>102.49999999999999\<close> and so 102 percent, where 102.5 would round to 103. The
  route tests the percentage before rounding it: 32.125 hours at availability 32 are
  100 percent and overloaded.
\<close>

lemma workloadOf_example:
  "map estimatedHours (activeAssignmentsOf 2 theStore) = [25, 20]"
  "workloadOf theEngineer (activeAssignmentsOf 2 theStore) =
     \<lparr>activeAssignments = 2, totalEstimatedHours = 45, availableHours = 0,
      utilizationPercentage = 113, isOverloaded = True\<rparr>"
  "recommendations 0 theEngineer (activeAssignmentsOf 2 theStore) = [Warning]"
  by code_simp+

lemma workloadOf_in_doubles:
  "utilizationPercentage (workloadOf theEngineer [firstAssignment\<lparr>estimatedHours := 41\<rparr>]) = 102"
  "Math_round (41 / 40 * 100) = 103"
  by code_simp+

lemma workloadOf_overloaded_at_100:
  "workloadOf (theEngineer\<lparr>availability := 32\<rparr>) [firstAssignment\<lparr>estimatedHours := 257 / 8\<rparr>] =
     \<lparr>activeAssignments = 1, totalEstimatedHours = 257 / 8, availableHours = 0,
      utilizationPercentage = 100, isOverloaded = True\<rparr>"
  by code_simp

text \<open>An engineer with no active assignment gets the figures.\<close>

lemma getWorkload_idle:
  "getWorkload 0 asEngineer 2 idleStore =
     Success 200 []
       (\<lparr>activeAssignments = 0, totalEstimatedHours = 0, availableHours = 40,
         utilizationPercentage = 0, isOverloaded = False\<rparr>, [Info])"
  by code_simp

text \<open>
  Claim C7: for availability 40 and two active assignments of 25 and 20 hours the
  workload computation returns \<^verbatim>\<open>utilizationPercentage\<close> 113, \<^verbatim>\<open>isOverloaded\<close>
  true and \<^verbatim>\<open>availableHours\<close> 0.

  The route computes these figures (\<open>workloadOf_example\<close>) and does not return them.
  For an engineer with an active assignment, a caller who may read the workload is
  answered 500: the answer holds the active assignments as documents, with their
  project populated without its team members.
\<close>

theorem workload_with_active_assignment_answers_500:
  assumes "findEngineer i s = Some engineer"
    and "c_role c \<noteq> Engineer \<or> c_id c = i"
    and "activeAssignmentsOf i s \<noteq> []"
  shows "getWorkload now c i s = Failure 500 ''Server error''"
proof -
  define active where "active = activeAssignmentsOf i s"
  define upcoming where "upcoming = take 5 (sort_key a_deadline active)"
  let ?missing = "\<lambda>a. findProject (a_project a) s = None"
  have ser: "serializable (populateProject [''name'', ''priority'', ''deadline''] pid s) \<longleftrightarrow>
      findProject pid s = None" for pid
    by (rule serializable_populateProject) simp
  from assms(3) have "set (sort_key a_deadline active) \<noteq> {}"
    by (simp add: active_def)
  then have "sort_key a_deadline active \<noteq> []"
    by (simp only: set_empty not_False_eq_True)
  then have "upcoming \<noteq> []"
    by (simp add: upcoming_def)
  then obtain x where x: "x \<in> set upcoming"
    by (cases upcoming) auto
  then have "x \<in> set (sort_key a_deadline active)"
    unfolding upcoming_def by (rule in_set_takeD)
  then have xa: "x \<in> set active"
    by simp
  have "\<not> list_all ?missing (upcoming @ filter (\<lambda>a. a_deadline a < now) active)"
    if "\<not> list_ex ?missing active"
  proof -
    from that xa have "\<not> ?missing x"
      by (auto simp: list_ex_iff)
    with x show ?thesis
      by (auto simp: list_all_iff)
  qed
  then show ?thesis
    using assms(1,2)
    by (auto simp: getWorkload_def Let_def ser active_def upcoming_def)
qed

text \<open>The claim's own example: the engineer of the store reads the own workload.\<close>

theorem workload_with_active_assignment_answers_500_witness:
  "findEngineer 2 theStore = Some theEngineer \<and> c_id asEngineer = 2 \<and>
   availability theEngineer = 40 \<and>
   map estimatedHours (activeAssignmentsOf 2 theStore) = [25, 20] \<and>
   getWorkload 0 asEngineer 2 theStore = Failure 500 ''Server error''"
proof -
  have e: "findEngineer 2 theStore = Some theEngineer"
    by (simp add: fixtures findEngineer_def)
  have c: "c_id asEngineer = 2" "availability theEngineer = 40"
    by (simp_all add: fixtures)
  have as: "map estimatedHours (activeAssignmentsOf 2 theStore) = [25, 20]"
    by (simp add: fixtures activeAssignmentsOf_def)
  then have "activeAssignmentsOf 2 theStore \<noteq> []"
    by auto
  with workload_with_active_assignment_answers_500 [OF e, of asEngineer 0] c(1)
  have "getWorkload 0 asEngineer 2 theStore = Failure 500 ''Server error''"
    by simp
  with e c as show ?thesis by simp
qed

section \<open>Deleting a user\<close>

text \<open>
  Claim C9: a delete request for a user with role admin who is the only active admin
  fails with the message \<^verbatim>\<open>Cannot delete the last admin user\<close>, and the store is as
  it was: the user is still active and no assignment has changed.
\<close>

theorem last_admin_is_not_deleted:
  assumes "isAdmin c"
    and "findUser i s = Some usr"
    and "u_role usr = Admin"
    and "filter (\<lambda>u. u_role u = Admin \<and> isActive u) (users s) = [usr]"
  shows "deleteUser c i s = (Failure 400 ''Cannot delete the last admin user'', s)"
  using assms by (simp add: deleteUser_def adminCount_def)

theorem last_admin_is_not_deleted_witness:
  "isAdmin asAdmin \<and> findUser 1 theStore = Some theAdmin \<and> u_role theAdmin = Admin \<and>
   filter (\<lambda>u. u_role u = Admin \<and> isActive u) (users theStore) = [theAdmin] \<and>
   deleteUser asAdmin 1 theStore = (Failure 400 ''Cannot delete the last admin user'', theStore)"
proof -
  have h: "isAdmin asAdmin" "findUser 1 theStore = Some theAdmin" "u_role theAdmin = Admin"
    "filter (\<lambda>u. u_role u = Admin \<and> isActive u) (users theStore) = [theAdmin]"
    by (simp_all add: fixtures isAdmin_def findUser_def)
  from last_admin_is_not_deleted [OF h] h show ?thesis by simp
qed

text \<open>Deleting the engineer instead deactivates the user and cancels the open assignments.\<close>

lemma delete_engineer_example:
  "(case deleteUser asAdmin 2 theStore of
      (reply, s') \<Rightarrow> (reply, map isActive (users s'), map a_status (assignments s')))
   = (Success 200 ''User deactivated successfully'' (), [True, False, True],
      [Cancelled, Cancelled, Completed])"
  by (simp add: fixtures deleteUser_def isAdmin_def findUser_def adminCount_def
      cancelAssignmentsOf_def validateUser_defs)

section \<open>Engineer metrics\<close>

lemma clampPercent_valid: "validPercent (clampPercent x)"
  by (simp add: validPercent_def clampPercent_def)

text \<open>
  Claim C10: \<^verbatim>\<open>PUT /api/engineers/:id/metrics\<close> by an admin or a manager, for an
  active engineer whose stored document is valid, succeeds for every number in the
  payload: the stored \<^verbatim>\<open>utilization\<close> and \<^verbatim>\<open>efficiency\<close> are
  max(0, min(100, input)), hence within 0 and 100, and a metric that the payload omits
  keeps its value. User ids are unique in the collection.
\<close>

theorem metrics_are_clamped:
  assumes "isAdminOrManager c"
    and "findEngineer i s = Some engineer"
    and "distinct (map u_id (users s))"
    and "validateUser engineer"
    and "putMetrics c i body s = (reply, s')"
  shows
    "(let u = (case m_utilization body of None \<Rightarrow> utilization engineer | Some x \<Rightarrow> max 0 (min 100 x));
          e = (case m_efficiency body of None \<Rightarrow> efficiency engineer | Some x \<Rightarrow> max 0 (min 100 x))
      in reply = Success 200 ''Engineer metrics updated successfully'' (u, e) \<and>
         findUser i s' = Some (engineer\<lparr>utilization := u, efficiency := e\<rparr>) \<and>
         0 \<le> u \<and> u \<le> 100 \<and> 0 \<le> e \<and> e \<le> 100)"
proof -
  define u where
    "u = (case m_utilization body of None \<Rightarrow> utilization engineer | Some x \<Rightarrow> clampPercent x)"
  define e where
    "e = (case m_efficiency body of None \<Rightarrow> efficiency engineer | Some x \<Rightarrow> clampPercent x)"
  define e2 where "e2 = engineer\<lparr>utilization := u, efficiency := e\<rparr>"
  have valid_ue: "validPercent u" "validPercent e"
    using assms(4) clampPercent_valid
    by (auto simp: u_def e_def validateUser_def split: option.splits)
  then have valid: "validateUser e2"
    using assms(4) by (simp add: e2_def validateUser_def)
  have steps: "(case m_efficiency body of
          None \<Rightarrow> (case m_utilization body of
                     None \<Rightarrow> engineer
                   | Some x \<Rightarrow> engineer\<lparr>utilization := clampPercent x\<rparr>)
        | Some y \<Rightarrow> (case m_utilization body of
                     None \<Rightarrow> engineer
                   | Some x \<Rightarrow> engineer\<lparr>utilization := clampPercent x\<rparr>)\<lparr>efficiency := clampPercent y\<rparr>)
      = e2"
    by (simp add: e2_def u_def e_def split: option.splits)
  from assms(2) have fe: "find (\<lambda>v. u_id v = i \<and> (u_role v = Engineer \<and> isActive v)) (users s) = Some engineer"
    by (simp add: findEngineer_def)
  have fu: "find (\<lambda>v. u_id v = i) (users s) = Some engineer"
    using find_by_unique_key [OF fe assms(3)] .
  have uid: "u_id engineer = i"
    using find_Some_holds [OF fu] .
  have result: "putMetrics c i body s =
      (Success 200 ''Engineer metrics updated successfully'' (u, e),
       s\<lparr>users := updateFirst (\<lambda>v. u_id v = i) (\<lambda>v. e2) (users s)\<rparr>)"
    using assms(1,2) valid
    by (simp add: putMetrics_def Let_def steps uid) (simp add: e2_def)
  have "find (\<lambda>v. u_id v = i) (updateFirst (\<lambda>v. u_id v = i) (\<lambda>v. e2) (users s)) = Some e2"
    using find_updateFirst [OF fu, of "\<lambda>v. e2"] by (simp add: e2_def uid)
  with result assms(5) have "reply = Success 200 ''Engineer metrics updated successfully'' (u, e)"
    and "findUser i s' = Some e2"
    by (auto simp: findUser_def)
  with valid_ue show ?thesis
    unfolding Let_def e2_def u_def e_def clampPercent_def validPercent_def by simp
qed

text \<open>
  The manager puts utilization 150 and no efficiency: utilization is stored as 100, the
  efficiency stays 80.
\<close>

theorem metrics_are_clamped_witness:
  "isAdminOrManager asManager \<and> findEngineer 2 theStore = Some theEngineer \<and>
   distinct (map u_id (users theStore)) \<and> validateUser theEngineer \<and>
   putMetrics asManager 2 \<lparr>m_utilization = Some 150, m_efficiency = None\<rparr> theStore =
     (Success 200 ''Engineer metrics updated successfully'' (100, 80), storeAfterMetrics) \<and>
   findUser 2 storeAfterMetrics = Some (theEngineer\<lparr>utilization := 100, efficiency := 80\<rparr>)"
proof -
  have h: "isAdminOrManager asManager" "findEngineer 2 theStore = Some theEngineer"
    "distinct (map u_id (users theStore))"
    by (simp_all add: fixtures isAdminOrManager_def findEngineer_def)
  have v: "validateUser theEngineer"
    by (simp add: fixtures validateUser_defs)
  have p: "putMetrics asManager 2 \<lparr>m_utilization = Some 150, m_efficiency = None\<rparr> theStore =
     (Success 200 ''Engineer metrics updated successfully'' (100, 80), storeAfterMetrics)"
    by (simp add: fixtures putMetrics_def isAdminOrManager_def
        findEngineer_def clampPercent_def validateUser_defs Let_def)
  from metrics_are_clamped [OF h v p]
  have "findUser 2 storeAfterMetrics = Some (theEngineer\<lparr>utilization := 100, efficiency := 80\<rparr>)"
    by (simp add: Let_def)
  with h v p show ?thesis by simp
qed

end
